theory Spec2Isabelle
  imports Complex_Main
begin

section \<open>Violations and their rendering\<close>

text \<open>
  Go strings are byte sequences and \<open>len\<close> counts bytes; \<open>string\<close> is a list of
  8-bit characters, so \<open>length\<close> is Go's \<open>len\<close>. A Go \<open>error\<close> result is an option:
  \<open>None\<close> is \<open>nil\<close>. The primitive constraints return a \<open>ValidationError\<close>, the
  \<open>Validate\<close> methods a \<open>ValidationErrors\<close> list.
\<close>

record ValidationError =
  Field' :: string
  Message :: string

type_synonym ValidationErrors = "ValidationError list"

definition apostrophe :: char where
  "apostrophe = CHR 0x27"

text \<open>\<open>fmt.Sprintf("Field '%s': %s", e.Field, e.Message)\<close>\<close>

definition ValidationError_Error :: "ValidationError \<Rightarrow> string" where
  "ValidationError_Error e =
     ''Field '' @ [apostrophe] @ Field' e @ [apostrophe] @ '': '' @ Message e"

text \<open>Go's \<open>strings.Join\<close>: the elements in order, the separator between neighbours.\<close>

fun strings_Join :: "string list \<Rightarrow> string \<Rightarrow> string" where
  "strings_Join [] sep = []"
| "strings_Join [a] sep = a"
| "strings_Join (a # b # rest) sep = a @ sep @ strings_Join (b # rest) sep"

definition ValidationErrors_Error :: "ValidationErrors \<Rightarrow> string" where
  "ValidationErrors_Error errs =
     (if length errs = 0 then []
      else strings_Join (map ValidationError_Error errs) ''; '')"

definition HasErrors :: "ValidationErrors \<Rightarrow> bool" where
  "HasErrors errs = (length errs > 0)"

text \<open>
  The tail of every \<open>Validate\<close> method:
  \<open>if errs.HasErrors() { return errs }; return nil\<close>.
\<close>

definition result_of :: "ValidationErrors \<Rightarrow> ValidationErrors option" where
  "result_of errs = (if HasErrors errs then Some errs else None)"

text \<open>
  \<open>errs = append(errs, ValidationError{Field: name, Message: err.Error()})\<close> guarded by
  \<open>err != nil\<close>: what a parent appends for a nested \<open>Validate\<close> result.
\<close>

definition nested :: "string \<Rightarrow> ValidationErrors option \<Rightarrow> ValidationErrors" where
  "nested name r =
     (case r of None \<Rightarrow> []
      | Some errs \<Rightarrow> [\<lparr>Field' = name, Message = ValidationErrors_Error errs\<rparr>])"

text \<open>
  \<open>errs = append(errs, err.(ValidationError))\<close> guarded by \<open>err != nil\<close>: what a
  method appends for a primitive constraint's result.
\<close>

definition single :: "ValidationError option \<Rightarrow> ValidationErrors" where
  "single r = (case r of None \<Rightarrow> [] | Some e \<Rightarrow> [e])"

subsection \<open>Decimal formatting (\<open>%d\<close>)\<close>

definition digit_char :: "nat \<Rightarrow> char" where
  "digit_char d = char_of (48 + d)"

function decimal :: "nat \<Rightarrow> string" where
  "decimal n = (if n < 10 then [digit_char n] else decimal (n div 10) @ [digit_char (n mod 10)])"
  by pat_completeness auto
termination
  by (relation "measure id") auto

declare decimal.simps [simp del]

definition fmt_d :: "int \<Rightarrow> string" where
  "fmt_d i = (if i < 0 then CHR ''-'' # decimal (nat (- i)) else decimal (nat i))"

section \<open>Primitive constraints\<close>

subsection \<open>Floating-point values\<close>

text \<open>
  A \<open>float64\<close> by its IEEE 754 class: the comparisons of the source only ask how a value
  stands to zero, and a comparison with a NaN operand is false. \<open>Fin 0\<close> is positive zero.
\<close>

datatype float64 = NaN | NegInf | PosInf | NegZero | Fin real

fun f64_le_zero :: "float64 \<Rightarrow> bool" where
  "f64_le_zero NaN = False"
| "f64_le_zero NegInf = True"
| "f64_le_zero PosInf = False"
| "f64_le_zero NegZero = True"
| "f64_le_zero (Fin r) = (r \<le> 0)"


fun f64_gt_zero :: "float64 \<Rightarrow> bool" where
  "f64_gt_zero NaN = False"
| "f64_gt_zero NegInf = False"
| "f64_gt_zero PosInf = True"
| "f64_gt_zero NegZero = False"
| "f64_gt_zero (Fin r) = (r > 0)"

subsection \<open>Reflection: \<open>validateRequired\<close>\<close>

text \<open>
  \<open>validateRequired\<close> takes an \<open>interface{}\<close> and inspects it through \<open>reflect\<close>.
  \<open>rvalue\<close> is the \<open>reflect.Value\<close> it sees: a pointer is nil or points to a value, a
  struct is its fields in declaration order, and a slice is given by whether it is nil
  (\<open>IsZero\<close> of a slice is \<open>IsNil\<close> and looks at no element).
  (\<open>reflect.ValueOf(nil)\<close>, the invalid value, is not an \<open>rvalue\<close>: no call of the
  source passes an untyped nil.)
\<close>

datatype rvalue =
    RString string
  | RBool bool
  | RInt int
  | RFloat float64
  | RPtr "rvalue option"
  | RSlice bool
  | RStruct "rvalue list"

text \<open>
  \<open>reflect.Value.IsZero\<close>. A float is zero when it compares equal to 0, so negative
  zero is zero too (Go 1.22 and later; the message structs hold no float by value).
\<close>

fun IsZero :: "rvalue \<Rightarrow> bool" where
  "IsZero (RString s) = (s = [])"
| "IsZero (RBool b) = (\<not> b)"
| "IsZero (RInt i) = (i = 0)"
| "IsZero (RFloat f) = (f = Fin 0 \<or> f = NegZero)"
| "IsZero (RPtr p) = (p = None)"
| "IsZero (RSlice isNil) = isNil"
| "IsZero (RStruct fs) = list_all IsZero fs"

definition validateRequired :: "rvalue \<Rightarrow> string \<Rightarrow> ValidationError option" where
  "validateRequired v fieldName =
     (case v of
        RPtr None \<Rightarrow> Some \<lparr>Field' = fieldName, Message = ''is required but is nil''\<rparr>
      | RPtr (Some w) \<Rightarrow>
          (if IsZero w then Some \<lparr>Field' = fieldName, Message = ''is required but is empty''\<rparr>
           else None)
      | _ \<Rightarrow>
          (if IsZero v then Some \<lparr>Field' = fieldName, Message = ''is required but is empty''\<rparr>
           else None))"

subsection \<open>\<open>validateStringLength\<close>\<close>

definition validateStringLength :: "string \<Rightarrow> int \<Rightarrow> int \<Rightarrow> string \<Rightarrow> ValidationError option" where
  "validateStringLength value minLen maxLen fieldName =
     (let len = int (length value) in
      if len < minLen then
        Some \<lparr>Field' = fieldName,
              Message = ''length '' @ fmt_d len @ '' is below minimum '' @ fmt_d minLen\<rparr>
      else if len > maxLen then
        Some \<lparr>Field' = fieldName,
              Message = ''length '' @ fmt_d len @ '' exceeds maximum '' @ fmt_d maxLen\<rparr>
      else None)"

subsection \<open>Regular expressions: \<open>regexp.MatchString\<close>\<close>

text \<open>
  Every pattern of the source is a literal that compiles, is anchored by \<open>^\<close> and \<open>$\<close>
  (without the multi-line flag \<open>$\<close> is the end of the text), and is built from ASCII
  character classes, literals, bounded repetition, \<open>?\<close> and grouping. For such a pattern
  \<open>regexp.MatchString\<close> decides whether the whole text is in the language between the
  anchors, and since no class holds a non-ASCII rune, matching bytes is matching runes.
  \<open>rx\<close> is the language between the anchors; \<open>rmatch r s\<close> lists what is left of \<open>s\<close>
  after each way of matching a prefix of it.
\<close>

datatype rx = Eps | Cls "(char \<times> char) list" | Seq rx rx | Alt rx rx

definition in_class :: "(char \<times> char) list \<Rightarrow> char \<Rightarrow> bool" where
  "in_class rs c =
     list_ex (\<lambda>(lo, hi). (of_char lo :: nat) \<le> of_char c \<and> (of_char c :: nat) \<le> of_char hi) rs"

primrec rmatch :: "rx \<Rightarrow> string \<Rightarrow> string list" where
  "rmatch Eps s = [s]"
| "rmatch (Cls rs) s = (case s of [] \<Rightarrow> [] | c # t \<Rightarrow> if in_class rs c then [t] else [])"
| "rmatch (Seq a b) s = concat (map (rmatch b) (rmatch a s))"
| "rmatch (Alt a b) s = rmatch a s @ rmatch b s"

text \<open>
  \<open>r{n}\<close>, \<open>r?\<close>, \<open>r{n,m}\<close> (as \<open>n\<close> copies of \<open>r\<close> followed by
  \<open>(r(r(...)?)?)?\<close> of depth \<open>m - n\<close>) and a literal character.
\<close>

primrec times :: "nat \<Rightarrow> rx \<Rightarrow> rx" where
  "times 0 r = Eps"
| "times (Suc n) r = Seq r (times n r)"

definition Opt :: "rx \<Rightarrow> rx" where
  "Opt r = Alt r Eps"

primrec upto :: "nat \<Rightarrow> rx \<Rightarrow> rx" where
  "upto 0 r = Eps"
| "upto (Suc n) r = Opt (Seq r (upto n r))"

definition between :: "nat \<Rightarrow> nat \<Rightarrow> rx \<Rightarrow> rx" where
  "between n m r = Seq (times n r) (upto (m - n) r)"

definition lit :: "char \<Rightarrow> rx" where
  "lit c = Cls [(c, c)]"

definition upper :: rx where
  "upper = Cls [(CHR ''A'', CHR ''Z'')]"


definition digit :: rx where
  "digit = Cls [(CHR ''0'', CHR ''9'')]"

definition upper_digit :: rx where
  "upper_digit = Cls [(CHR ''A'', CHR ''Z''), (CHR ''0'', CHR ''9'')]"

definition hex_lower :: rx where
  "hex_lower = Cls [(CHR ''0'', CHR ''9''), (CHR ''a'', CHR ''f'')]"

text \<open>A pattern: its text, printed in the violation message, and its language.\<close>

record pattern =
  source :: string
  prog :: rx

definition regexp_MatchString :: "pattern \<Rightarrow> string \<Rightarrow> bool" where
  "regexp_MatchString p s = ([] \<in> set (rmatch (prog p) s))"

text \<open>
  \<open>validatePattern\<close>. The branch for a pattern that does not compile is not taken by
  any pattern of the source.
\<close>

definition validatePattern :: "string \<Rightarrow> pattern \<Rightarrow> string \<Rightarrow> ValidationError option" where
  "validatePattern value p fieldName =
     (if \<not> regexp_MatchString p value then
        Some \<lparr>Field' = fieldName,
              Message = ''does not match required pattern '' @ [apostrophe] @ source p @ [apostrophe]\<rparr>
      else None)"

text \<open>The patterns of the source. \<open>bs_d\<close> is the two characters \<open>\d\<close>.\<close>

definition bs_d :: string where
  "bs_d = [CHR 0x5C, CHR ''d'']"

definition pat_currency :: pattern where
  "pat_currency = \<lparr>source = ''^[A-Z]{3}$'', prog = times 3 upper\<rparr>"

definition pat_country :: pattern where
  "pat_country = \<lparr>source = ''^[A-Z]{2}$'', prog = times 2 upper\<rparr>"

definition pat_bic :: pattern where
  "pat_bic = \<lparr>source = ''^[A-Z]{4}[A-Z]{2}[A-Z0-9]{2}([A-Z0-9]{3})?$'',
     prog = Seq (times 4 upper) (Seq (times 2 upper) (Seq (times 2 upper_digit)
              (Opt (times 3 upper_digit))))\<rparr>"

definition pat_iban :: pattern where
  "pat_iban = \<lparr>source = ''^[A-Z]{2}[0-9]{2}[A-Z0-9]{1,30}$'',
     prog = Seq (times 2 upper) (Seq (times 2 digit) (between 1 30 upper_digit))\<rparr>"

definition pat_lei :: pattern where
  "pat_lei = \<lparr>source = ''^[A-Z0-9]{18}[0-9]{2}$'',
     prog = Seq (times 18 upper_digit) (times 2 digit)\<rparr>"

definition pat_uuid :: pattern where
  "pat_uuid = \<lparr>source =
       ''^[0-9a-f]{8}-[0-9a-f]{4}-4[0-9a-f]{3}-[89ab][0-9a-f]{3}-[0-9a-f]{12}$'',
     prog = Seq (times 8 hex_lower) (Seq (lit CHR ''-'') (Seq (times 4 hex_lower)
           (Seq (lit CHR ''-'') (Seq (lit CHR ''4'') (Seq (times 3 hex_lower)
           (Seq (lit CHR ''-'') (Seq (Cls [(CHR ''8'', CHR ''9''), (CHR ''a'', CHR ''b'')])
           (Seq (times 3 hex_lower) (Seq (lit CHR ''-'') (times 12 hex_lower))))))))))\<rparr>"

text \<open>\<open>^\d{4}-\d{2}-\d{2}$\<close>\<close>

definition pat_date :: pattern where
  "pat_date = \<lparr>source = ''^'' @ bs_d @ ''{4}-'' @ bs_d @ ''{2}-'' @ bs_d @ ''{2}$'',
     prog = Seq (times 4 digit) (Seq (lit CHR ''-'') (Seq (times 2 digit)
           (Seq (lit CHR ''-'') (times 2 digit))))\<rparr>"

text \<open>\<open>^\d{4}-\d{2}-\d{2}T\d{2}:\d{2}:\d{2}(\.\d{3}Z?)?$\<close>\<close>

definition pat_datetime :: pattern where
  "pat_datetime = \<lparr>source =
       ''^'' @ bs_d @ ''{4}-'' @ bs_d @ ''{2}-'' @ bs_d @ ''{2}T'' @ bs_d @ ''{2}:'' @ bs_d
       @ ''{2}:'' @ bs_d @ ''{2}('' @ [CHR 0x5C] @ ''.'' @ bs_d @ ''{3}Z?)?$'',
     prog = Seq (times 4 digit) (Seq (lit CHR ''-'') (Seq (times 2 digit)
           (Seq (lit CHR ''-'') (Seq (times 2 digit) (Seq (lit CHR ''T'')
           (Seq (times 2 digit) (Seq (lit CHR '':'') (Seq (times 2 digit)
           (Seq (lit CHR '':'') (Seq (times 2 digit)
           (Opt (Seq (lit CHR ''.'') (Seq (times 3 digit) (Opt (lit CHR ''Z'')))))))))))))))\<rparr>"

definition pat_number_of_transactions :: pattern where
  "pat_number_of_transactions = \<lparr>source = ''^[0-9]{1,15}$'', prog = between 1 15 digit\<rparr>"

subsection \<open>The format validators\<close>

definition validateEnumeration :: "string \<Rightarrow> string list \<Rightarrow> string \<Rightarrow> ValidationError option" where
  "validateEnumeration value validValues fieldName =
     (if list_ex (\<lambda>valid. value = valid) validValues then None
      else Some \<lparr>Field' = fieldName,
                 Message = [apostrophe] @ value @ [apostrophe] @ '' is not a valid enumeration value''\<rparr>)"

definition validateCurrency :: "string \<Rightarrow> string \<Rightarrow> ValidationError option" where
  "validateCurrency code fieldName =
     (case validateStringLength code 3 3 fieldName of
        Some err \<Rightarrow> Some err
      | None \<Rightarrow> validatePattern code pat_currency fieldName)"

definition validateCountryCode :: "string \<Rightarrow> string \<Rightarrow> ValidationError option" where
  "validateCountryCode code fieldName =
     (case validateStringLength code 2 2 fieldName of
        Some err \<Rightarrow> Some err
      | None \<Rightarrow> validatePattern code pat_country fieldName)"

definition validateBIC :: "string \<Rightarrow> string \<Rightarrow> ValidationError option" where
  "validateBIC bic fieldName =
     (case validateStringLength bic 8 11 fieldName of
        Some err \<Rightarrow> Some err
      | None \<Rightarrow> validatePattern bic pat_bic fieldName)"

definition validateIBAN :: "string \<Rightarrow> string \<Rightarrow> ValidationError option" where
  "validateIBAN iban fieldName =
     (case validateStringLength iban 15 34 fieldName of
        Some err \<Rightarrow> Some err
      | None \<Rightarrow> validatePattern iban pat_iban fieldName)"

definition validateLEI :: "string \<Rightarrow> string \<Rightarrow> ValidationError option" where
  "validateLEI lei fieldName =
     (case validateStringLength lei 20 20 fieldName of
        Some err \<Rightarrow> Some err
      | None \<Rightarrow> validatePattern lei pat_lei fieldName)"

definition validateUUID :: "string \<Rightarrow> string \<Rightarrow> ValidationError option" where
  "validateUUID uuid fieldName =
     (case validateStringLength uuid 36 36 fieldName of
        Some err \<Rightarrow> Some err
      | None \<Rightarrow> validatePattern uuid pat_uuid fieldName)"

subsection \<open>Calendar parsing: \<open>time.Parse\<close>\<close>

text \<open>
  \<open>time.Parse\<close> walks its layout chunk by chunk. A layout is given here as its chunks:
  \<open>"2006-01-02T15:04:05.000Z"\<close> is the year \<open>2006\<close>, the literal \<open>-\<close>, the month \<open>01\<close>,
  \<open>-\<close>, the day \<open>02\<close>, \<open>T\<close>, the hour \<open>15\<close>, \<open>:\<close>, the minute \<open>04\<close>, \<open>:\<close>, the second
  \<open>05\<close>, the fractional second \<open>.000\<close> and the literal \<open>Z\<close> (a \<open>Z\<close> not followed by
  \<open>07\<close> is no time-zone chunk). Only whether the parse succeeds reaches the validators,
  so every error is \<open>None\<close>.
\<close>

datatype chunk =
    Lit string
  | LongYear
  | ZeroMonth
  | ZeroDay
  | Hour
  | ZeroMinute
  | ZeroSecond
  | FracSecond0 nat

record civil =
  year :: int
  month :: int
  day :: int
  hour :: int
  minute :: int
  second :: int

definition is_digit :: "char \<Rightarrow> bool" where
  "is_digit c = ((of_char CHR ''0'' :: nat) \<le> of_char c \<and> (of_char c :: nat) \<le> of_char CHR ''9'')"

definition digit_val :: "char \<Rightarrow> int" where
  "digit_val c = int (of_char c) - 48"

text \<open>\<open>getnum(s, fixed)\<close>: one or two digits, exactly two when \<open>fixed\<close>.\<close>

definition getnum :: "string \<Rightarrow> bool \<Rightarrow> (int \<times> string) option" where
  "getnum s fixed =
     (case s of
        [] \<Rightarrow> None
      | c1 # r1 \<Rightarrow>
          if \<not> is_digit c1 then None
          else (case r1 of
                  [] \<Rightarrow> if fixed then None else Some (digit_val c1, r1)
                | c2 # r2 \<Rightarrow>
                    if \<not> is_digit c2 then (if fixed then None else Some (digit_val c1, r1))
                    else Some (digit_val c1 * 10 + digit_val c2, r2)))"

text \<open>
  \<open>atoi\<close>: an optional sign, then digits up to the end of the string; \<open>number\<close> is the
  value of the digits. (The strings it is given hold at most nine characters, far from
  overflow.)
\<close>

definition number :: "string \<Rightarrow> int" where
  "number t = foldl (\<lambda>a c. a * 10 + digit_val c) 0 t"

definition atoi :: "string \<Rightarrow> int option" where
  "atoi s =
     (let neg = (s \<noteq> [] \<and> hd s = CHR ''-'');
          t = (if s \<noteq> [] \<and> (hd s = CHR ''-'' \<or> hd s = CHR ''+'') then tl s else s)
      in if list_all is_digit t then Some (if neg then - number t else number t) else None)"

text \<open>
  \<open>skip(value, prefix)\<close> for a prefix without spaces (no layout of the source has one):
  the value must start with the prefix.
\<close>

fun skip :: "string \<Rightarrow> string \<Rightarrow> string option" where
  "skip v [] = Some v"
| "skip [] (p # ps) = None"
| "skip (c # v) (p # ps) = (if c = p then skip v ps else None)"

text \<open>
  \<open>parseNanoseconds(value, nbytes)\<close>, called with \<open>1 \<le> nbytes \<le> len(value)\<close>: a
  comma or period, then (in the first ten bytes at most) a number that is not negative.
\<close>

definition commaOrPeriod :: "char \<Rightarrow> bool" where
  "commaOrPeriod c = (c = CHR ''.'' \<or> c = CHR '','')"

definition parseNanoseconds :: "string \<Rightarrow> nat \<Rightarrow> bool" where
  "parseNanoseconds value nbytes =
     (case value of
        [] \<Rightarrow> False
      | c # r \<Rightarrow>
          commaOrPeriod c \<and>
          (case atoi (take (min nbytes 10 - 1) r) of None \<Rightarrow> False | Some ns \<Rightarrow> \<not> ns < 0))"

fun is_Lit :: "chunk \<Rightarrow> bool" where
  "is_Lit (Lit p) = True"
| "is_Lit c = False"

text \<open>
  The loop of \<open>time.Parse\<close>. After the seconds, an input that goes on with a comma or
  period and a digit carries a fractional second: when the next chunk of the layout
  (past literals) is a fractional second the loop goes on, otherwise the digits are
  consumed on the spot. At the end of the layout nothing may be left of the value.
\<close>

fun parse_chunks :: "chunk list \<Rightarrow> string \<Rightarrow> civil \<Rightarrow> civil option" where
  "parse_chunks [] v f = (if v = [] then Some f else None)"
| "parse_chunks (Lit p # cs) v f =
     (case skip v p of None \<Rightarrow> None | Some v' \<Rightarrow> parse_chunks cs v' f)"
| "parse_chunks (LongYear # cs) v f =
     (if length v < 4 \<or> \<not> is_digit (hd v) then None
      else (case atoi (take 4 v) of
              None \<Rightarrow> None
            | Some y \<Rightarrow> parse_chunks cs (drop 4 v) (f\<lparr>year := y\<rparr>)))"
| "parse_chunks (ZeroMonth # cs) v f =
     (case getnum v True of
        None \<Rightarrow> None
      | Some (m, v') \<Rightarrow>
          if m \<le> 0 \<or> 12 < m then None else parse_chunks cs v' (f\<lparr>month := m\<rparr>))"
| "parse_chunks (ZeroDay # cs) v f =
     (case getnum v True of
        None \<Rightarrow> None
      | Some (d, v') \<Rightarrow> parse_chunks cs v' (f\<lparr>day := d\<rparr>))"
| "parse_chunks (Hour # cs) v f =
     (case getnum v False of
        None \<Rightarrow> None
      | Some (h, v') \<Rightarrow>
          if h < 0 \<or> 24 \<le> h then None else parse_chunks cs v' (f\<lparr>hour := h\<rparr>))"
| "parse_chunks (ZeroMinute # cs) v f =
     (case getnum v True of
        None \<Rightarrow> None
      | Some (m, v') \<Rightarrow>
          if m < 0 \<or> 60 \<le> m then None else parse_chunks cs v' (f\<lparr>minute := m\<rparr>))"
| "parse_chunks (ZeroSecond # cs) v f =
     (case getnum v True of
        None \<Rightarrow> None
      | Some (s, v') \<Rightarrow>
          if s < 0 \<or> 60 \<le> s then None
          else if length v' \<ge> 2 \<and> commaOrPeriod (hd v') \<and> is_digit (v' ! 1) then
            (case dropWhile is_Lit cs of
               FracSecond0 k # rest \<Rightarrow> parse_chunks cs v' (f\<lparr>second := s\<rparr>)
             | rest \<Rightarrow>
                 (let n = 2 + length (takeWhile is_digit (drop 2 v')) in
                  if parseNanoseconds v' n
                  then parse_chunks cs (drop n v') (f\<lparr>second := s\<rparr>)
                  else None))
          else parse_chunks cs v' (f\<lparr>second := s\<rparr>))"
| "parse_chunks (FracSecond0 k # cs) v f =
     (let ndigit = 1 + k in
      if length v < ndigit then None
      else if parseNanoseconds v ndigit then parse_chunks cs (drop ndigit v) f
      else None)"

definition isLeap :: "int \<Rightarrow> bool" where
  "isLeap y = (y mod 4 = 0 \<and> (y mod 100 \<noteq> 0 \<or> y mod 400 = 0))"

text \<open>\<open>daysIn(m, year)\<close>, for a month in 1..12 (the month chunk lets no other through).\<close>

definition daysIn :: "int \<Rightarrow> int \<Rightarrow> int" where
  "daysIn m y =
     (if m = 2 \<and> isLeap y then 29
      else [31, 28, 31, 30, 31, 30, 31, 31, 30, 31, 30, 31] ! nat (m - 1))"

text \<open>
  \<open>time.Parse(layout, value)\<close>: the loop, then the day of the month against the month
  and year. (The fields a layout does not set start as January 1 of year 0, midnight;
  every layout of the source sets all six.)
\<close>

definition time_Parse :: "chunk list \<Rightarrow> string \<Rightarrow> civil option" where
  "time_Parse layout value =
     (case parse_chunks layout value
             \<lparr>year = 0, month = 1, day = 1, hour = 0, minute = 0, second = 0\<rparr> of
        None \<Rightarrow> None
      | Some f \<Rightarrow> if day f < 1 \<or> day f > daysIn (month f) (year f) then None else Some f)"

text \<open>\<open>"2006-01-02"\<close>\<close>

definition layout_date :: "chunk list" where
  "layout_date = [LongYear, Lit ''-'', ZeroMonth, Lit ''-'', ZeroDay]"

text \<open>\<open>"2006-01-02T15:04:05"\<close>, \<open>"2006-01-02T15:04:05.000"\<close>, \<open>"2006-01-02T15:04:05.000Z"\<close>\<close>

definition layout_seconds :: "chunk list" where
  "layout_seconds = [LongYear, Lit ''-'', ZeroMonth, Lit ''-'', ZeroDay, Lit ''T'',
                     Hour, Lit '':'', ZeroMinute, Lit '':'', ZeroSecond]"

definition layouts :: "chunk list list" where
  "layouts = [layout_seconds,
              layout_seconds @ [FracSecond0 3],
              layout_seconds @ [FracSecond0 3, Lit ''Z'']]"

subsection \<open>\<open>validateDate\<close> and \<open>validateDateTime\<close>\<close>

definition validateDate :: "string \<Rightarrow> string \<Rightarrow> ValidationError option" where
  "validateDate date fieldName =
     (if date = [] then Some \<lparr>Field' = fieldName, Message = ''date is required''\<rparr>
      else if validatePattern date pat_date fieldName \<noteq> None then
        Some \<lparr>Field' = fieldName, Message = ''date must be in YYYY-MM-DD format''\<rparr>
      else if time_Parse layout_date date = None then
        Some \<lparr>Field' = fieldName, Message = ''invalid date value''\<rparr>
      else None)"

text \<open>
  The loop over the layouts: \<open>parseErr\<close> starts as nil, takes the error of each layout
  tried, and the loop leaves at the first layout that parses. The flag is
  \<open>parseErr == nil\<close>.
\<close>

fun try_layouts :: "chunk list list \<Rightarrow> string \<Rightarrow> bool \<Rightarrow> bool" where
  "try_layouts [] v ok = ok"
| "try_layouts (l # ls) v ok = (if time_Parse l v \<noteq> None then True else try_layouts ls v False)"

definition validateDateTime :: "string \<Rightarrow> string \<Rightarrow> ValidationError option" where
  "validateDateTime dateTime fieldName =
     (if dateTime = [] then Some \<lparr>Field' = fieldName, Message = ''datetime is required''\<rparr>
      else if validatePattern dateTime pat_datetime fieldName \<noteq> None then
        Some \<lparr>Field' = fieldName, Message = ''datetime must be in YYYY-MM-DDTHH:MM:SS format''\<rparr>
      else if \<not> try_layouts layouts dateTime True then
        Some \<lparr>Field' = fieldName, Message = ''invalid datetime value''\<rparr>
      else None)"

section \<open>Structures and their \<open>Validate\<close> methods\<close>

text \<open>
  A struct is a record; a pointer field is an option (\<open>None\<close> is nil). A record holds
  the fields that some \<open>Validate\<close> method reads. The structs that are handed to
  \<open>validateRequired\<close> by value (\<open>FinancialInstitutionIdentification18\<close>,
  \<open>SettlementInstruction7\<close>, \<open>GroupHeader93\<close>, \<open>FIToFICustomerCreditTransferV08\<close>) hold
  every field, because \<open>IsZero\<close> looks at every field: a field that no method reads is
  kept as the \<open>reflect.Value\<close> that \<open>IsZero\<close> sees. Field names carry a prefix for their
  struct. The message tree has no cycle, so the methods are defined one after the other.
\<close>

text \<open>The blocks the methods are made of.\<close>

text \<open>
  \<open>if err := validateRequired(v, name); err != nil { errs = append(errs, err.(ValidationError)) }
  else { ... }\<close>
\<close>

definition required_else :: "rvalue \<Rightarrow> string \<Rightarrow> ValidationErrors \<Rightarrow> ValidationErrors" where
  "required_else v name rest = (case validateRequired v name of Some err \<Rightarrow> [err] | None \<Rightarrow> rest)"

text \<open>\<open>if p != nil { ... *p ... }\<close>\<close>

definition when_set :: "'a option \<Rightarrow> ('a \<Rightarrow> ValidationErrors) \<Rightarrow> ValidationErrors" where
  "when_set p body = (case p of None \<Rightarrow> [] | Some x \<Rightarrow> body x)"

text \<open>The violations of a result: none for nil.\<close>

definition violations :: "ValidationErrors option \<Rightarrow> ValidationErrors" where
  "violations r = (case r of None \<Rightarrow> [] | Some errs \<Rightarrow> errs)"

subsection \<open>\<open>ActiveCurrencyAndAmount\<close>\<close>

record ActiveCurrencyAndAmount =
  aca_Value :: float64
  aca_Currency :: string

definition ActiveCurrencyAndAmount_Validate :: "ActiveCurrencyAndAmount \<Rightarrow> ValidationErrors option" where
  "ActiveCurrencyAndAmount_Validate a = result_of (
       (if f64_le_zero (aca_Value a) then [\<lparr>Field' = ''Value'', Message = ''must be positive''\<rparr>]
        else [])
     @ (if aca_Currency a = [] then [\<lparr>Field' = ''Ccy'', Message = ''is required''\<rparr>]
        else single (validateCurrency (aca_Currency a) ''Ccy'')))"

subsection \<open>\<open>GroupHeader93\<close>\<close>

record SettlementInstruction7 =
  si_SettlementMethod :: string
  si_SettlementAccount :: rvalue
  si_ClearingSystem :: rvalue
  si_InstructingReimbursementAgent :: rvalue
  si_InstructingReimbursementAgentAccount :: rvalue
  si_InstructedReimbursementAgent :: rvalue
  si_InstructedReimbursementAgentAccount :: rvalue
  si_ThirdReimbursementAgent :: rvalue
  si_ThirdReimbursementAgentAccount :: rvalue

definition reflect_SettlementInstruction7 :: "SettlementInstruction7 \<Rightarrow> rvalue" where
  "reflect_SettlementInstruction7 s = RStruct
     [RString (si_SettlementMethod s), si_SettlementAccount s, si_ClearingSystem s,
      si_InstructingReimbursementAgent s, si_InstructingReimbursementAgentAccount s,
      si_InstructedReimbursementAgent s, si_InstructedReimbursementAgentAccount s,
      si_ThirdReimbursementAgent s, si_ThirdReimbursementAgentAccount s]"

text \<open>
  \<open>CreationDateTime\<close> is a \<open>*time.Time\<close>, read only for being nil; the \<open>time.Time\<close>
  behind it is kept as its \<open>reflect.Value\<close>.
\<close>

record GroupHeader93 =
  gh_MessageID :: string
  gh_CreationDateTime :: "rvalue option"
  gh_BatchBooking :: rvalue
  gh_NumberOfTransactions :: string
  gh_ControlSum :: rvalue
  gh_TotalInterbankSettlementAmount :: rvalue
  gh_InterbankSettlementDate :: rvalue
  gh_SettlementInfo :: SettlementInstruction7
  gh_PaymentTypeInfo :: rvalue
  gh_InstructingAgent :: rvalue
  gh_InstructedAgent :: rvalue


definition GroupHeader93_Validate :: "GroupHeader93 \<Rightarrow> ValidationErrors option" where
  "GroupHeader93_Validate g = result_of (
       required_else (RString (gh_MessageID g)) ''MsgId''
         (single (validateStringLength (gh_MessageID g) 1 35 ''MsgId''))
     @ required_else (RString (gh_NumberOfTransactions g)) ''NbOfTxs''
         (single (validatePattern (gh_NumberOfTransactions g) pat_number_of_transactions ''NbOfTxs''))
     @ (if gh_CreationDateTime g = None then [\<lparr>Field' = ''CreDtTm'', Message = ''is required''\<rparr>]
        else [])
     @ required_else (reflect_SettlementInstruction7 (gh_SettlementInfo g)) ''SttlmInf''
         (single (validateRequired (RString (si_SettlementMethod (gh_SettlementInfo g))) ''SttlmMtd'')))"

subsection \<open>The choices between a code and a proprietary text\<close>











subsection \<open>\<open>Rate4\<close>, \<open>TaxCharges2\<close>, \<open>GenericIdentification30\<close>\<close>







subsection \<open>Parties\<close>

record PaymentIdentification7 =
  pid_EndToEndID :: string
  pid_TransactionID :: "string option"

definition PaymentIdentification7_Validate :: "PaymentIdentification7 \<Rightarrow> ValidationErrors option" where
  "PaymentIdentification7_Validate p = result_of (
       required_else (RString (pid_EndToEndID p)) ''EndToEndID''
         (single (validateStringLength (pid_EndToEndID p) 1 35 ''EndToEndID''))
     @ when_set (pid_TransactionID p) (\<lambda>v. single (validateStringLength v 1 35 ''TransactionID'')))"

record PostalAddress24 =
  pa_Department :: "string option"
  pa_StreetName :: "string option"
  pa_BuildingNumber :: "string option"
  pa_PostCode :: "string option"
  pa_TownName :: "string option"
  pa_Country :: "string option"

definition PostalAddress24_Validate :: "PostalAddress24 \<Rightarrow> ValidationErrors option" where
  "PostalAddress24_Validate p = result_of (
       when_set (pa_Department p) (\<lambda>v. single (validateStringLength v 1 70 ''Department''))
     @ when_set (pa_StreetName p) (\<lambda>v. single (validateStringLength v 1 70 ''StreetName''))
     @ when_set (pa_BuildingNumber p) (\<lambda>v. single (validateStringLength v 1 16 ''BuildingNumber''))
     @ when_set (pa_PostCode p) (\<lambda>v. single (validateStringLength v 1 16 ''PostCode''))
     @ when_set (pa_TownName p) (\<lambda>v. single (validateStringLength v 1 35 ''TownName''))
     @ when_set (pa_Country p) (\<lambda>v. single (validateCountryCode v ''Country'')))"

record Contact4 =
  ct_Name :: "string option"
  ct_PhoneNumber :: "string option"
  ct_EmailAddress :: "string option"

definition Contact4_Validate :: "Contact4 \<Rightarrow> ValidationErrors option" where
  "Contact4_Validate c = result_of (
       when_set (ct_Name c) (\<lambda>v. single (validateStringLength v 1 140 ''Name''))
     @ when_set (ct_EmailAddress c) (\<lambda>v. single (validateStringLength v 1 2048 ''EmailAddress''))
     @ when_set (ct_PhoneNumber c) (\<lambda>v. single (validateStringLength v 1 35 ''PhoneNumber'')))"

record PartyIdentification135 =
  pty_Name :: "string option"
  pty_PostalAddress :: "PostalAddress24 option"
  pty_ContactDetails :: "Contact4 option"

definition PartyIdentification135_Validate :: "PartyIdentification135 \<Rightarrow> ValidationErrors option" where
  "PartyIdentification135_Validate p = result_of (
       when_set (pty_Name p) (\<lambda>v. single (validateStringLength v 1 140 ''Name''))
     @ when_set (pty_PostalAddress p) (\<lambda>a. nested ''PostalAddress'' (PostalAddress24_Validate a))
     @ when_set (pty_ContactDetails p) (\<lambda>c. nested ''ContactDetails'' (Contact4_Validate c)))"

subsection \<open>Agents\<close>

record FinancialInstitutionIdentification18 =
  fi_BankIdentifierCode :: "string option"
  fi_ClearingSystemMemberID :: rvalue
  fi_LegalEntityIdentifier :: "string option"
  fi_Name :: "string option"
  fi_PostalAddress :: rvalue
  fi_Other :: rvalue

definition reflect_FinancialInstitutionIdentification18 ::
    "FinancialInstitutionIdentification18 \<Rightarrow> rvalue" where
  "reflect_FinancialInstitutionIdentification18 f = RStruct
     [RPtr (map_option RString (fi_BankIdentifierCode f)), fi_ClearingSystemMemberID f,
      RPtr (map_option RString (fi_LegalEntityIdentifier f)),
      RPtr (map_option RString (fi_Name f)), fi_PostalAddress f, fi_Other f]"

definition FinancialInstitutionIdentification18_Validate ::
    "FinancialInstitutionIdentification18 \<Rightarrow> ValidationErrors option" where
  "FinancialInstitutionIdentification18_Validate f = result_of (
       when_set (fi_BankIdentifierCode f) (\<lambda>v. single (validateBIC v ''BankIdentifierCode''))
     @ when_set (fi_LegalEntityIdentifier f) (\<lambda>v. single (validateLEI v ''LegalEntityIdentifier''))
     @ when_set (fi_Name f) (\<lambda>v. single (validateStringLength v 1 140 ''Name'')))"

record BranchData3 =
  br_ID :: "string option"
  br_LegalEntityIdentifier :: "string option"
  br_Name :: "string option"

definition BranchData3_Validate :: "BranchData3 \<Rightarrow> ValidationErrors option" where
  "BranchData3_Validate b = result_of (
       when_set (br_ID b) (\<lambda>v. single (validateStringLength v 1 35 ''ID''))
     @ when_set (br_LegalEntityIdentifier b) (\<lambda>v. single (validateLEI v ''LegalEntityIdentifier''))
     @ when_set (br_Name b) (\<lambda>v. single (validateStringLength v 1 140 ''Name'')))"

record BranchAndFinancialInstitutionIdentification6 =
  bfi_FinancialInstitutionID :: FinancialInstitutionIdentification18
  bfi_BranchID :: "BranchData3 option"

definition BranchAndFinancialInstitutionIdentification6_Validate ::
    "BranchAndFinancialInstitutionIdentification6 \<Rightarrow> ValidationErrors option" where
  "BranchAndFinancialInstitutionIdentification6_Validate b = result_of (
       required_else (reflect_FinancialInstitutionIdentification18 (bfi_FinancialInstitutionID b))
         ''FinancialInstitutionID''
         (nested ''FinancialInstitutionID''
            (FinancialInstitutionIdentification18_Validate (bfi_FinancialInstitutionID b)))
     @ when_set (bfi_BranchID b) (\<lambda>d. nested ''BranchID'' (BranchData3_Validate d)))"

subsection \<open>Accounts\<close>

record GenericAccountIdentification1 =
  gai_ID :: string
  gai_Issuer :: "string option"

definition GenericAccountIdentification1_Validate ::
    "GenericAccountIdentification1 \<Rightarrow> ValidationErrors option" where
  "GenericAccountIdentification1_Validate g = result_of (
       required_else (RString (gai_ID g)) ''ID''
         (single (validateStringLength (gai_ID g) 1 34 ''ID''))
     @ when_set (gai_Issuer g) (\<lambda>v. single (validateStringLength v 1 35 ''Issuer'')))"

record AccountIdentification4 =
  ai_IBAN :: "string option"
  ai_Other :: "GenericAccountIdentification1 option"

definition AccountIdentification4_Validate :: "AccountIdentification4 \<Rightarrow> ValidationErrors option" where
  "AccountIdentification4_Validate a =
     (let hasIBAN = (ai_IBAN a \<noteq> None); hasOther = (ai_Other a \<noteq> None)
      in result_of (
           (if \<not> hasIBAN \<and> \<not> hasOther
            then [\<lparr>Field' = ''Choice'', Message = ''must have either IBAN or Other''\<rparr>]
            else if hasIBAN \<and> hasOther
            then [\<lparr>Field' = ''Choice'', Message = ''cannot have both IBAN and Other''\<rparr>]
            else [])
         @ when_set (ai_IBAN a) (\<lambda>v. single (validateStringLength v 15 34 ''IBAN''))
         @ when_set (ai_Other a)
             (\<lambda>g. nested ''Other'' (GenericAccountIdentification1_Validate g))))"

record CashAccount38 =
  ca_ID :: AccountIdentification4
  ca_Currency :: "string option"
  ca_Name :: "string option"

definition CashAccount38_Validate :: "CashAccount38 \<Rightarrow> ValidationErrors option" where
  "CashAccount38_Validate c = result_of (
       nested ''ID'' (AccountIdentification4_Validate (ca_ID c))
     @ when_set (ca_Currency c) (\<lambda>v. single (validateStringLength v 3 3 ''Currency''))
     @ when_set (ca_Name c) (\<lambda>v. single (validateStringLength v 1 70 ''Name'')))"

subsection \<open>The credit transfer\<close>

record PaymentTypeInfo28 =
  pti_InstructionPriority :: "string option"
  pti_SequenceType :: "string option"

definition PaymentTypeInfo28_Validate :: "PaymentTypeInfo28 \<Rightarrow> ValidationErrors option" where
  "PaymentTypeInfo28_Validate p = result_of (
       when_set (pti_InstructionPriority p)
         (\<lambda>v. single (validateStringLength v 1 4 ''InstructionPriority''))
     @ when_set (pti_SequenceType p) (\<lambda>v. single (validateStringLength v 1 4 ''SequenceType'')))"

record CreditTransferTransaction39 =
  tx_PaymentID :: PaymentIdentification7
  tx_PaymentTypeInfo :: "PaymentTypeInfo28 option"
  tx_InterbankSettlementAmount :: ActiveCurrencyAndAmount
  tx_ChargeBearer :: string
  tx_UltimateDebtor :: "PartyIdentification135 option"
  tx_Debtor :: PartyIdentification135
  tx_DebtorAccount :: "CashAccount38 option"
  tx_DebtorAgent :: BranchAndFinancialInstitutionIdentification6
  tx_CreditorAgent :: BranchAndFinancialInstitutionIdentification6
  tx_Creditor :: PartyIdentification135
  tx_CreditorAccount :: "CashAccount38 option"
  tx_UltimateCreditor :: "PartyIdentification135 option"

definition CreditTransferTransaction39_Validate ::
    "CreditTransferTransaction39 \<Rightarrow> ValidationErrors option" where
  "CreditTransferTransaction39_Validate c = result_of (
       nested ''PaymentID'' (PaymentIdentification7_Validate (tx_PaymentID c))
     @ nested ''InterbankSettlementAmount''
         (ActiveCurrencyAndAmount_Validate (tx_InterbankSettlementAmount c))
     @ required_else (RString (tx_ChargeBearer c)) ''ChargeBearer''
         (single (validateStringLength (tx_ChargeBearer c) 1 4 ''ChargeBearer''))
     @ nested ''Debtor'' (PartyIdentification135_Validate (tx_Debtor c))
     @ nested ''DebtorAgent''
         (BranchAndFinancialInstitutionIdentification6_Validate (tx_DebtorAgent c))
     @ nested ''Creditor'' (PartyIdentification135_Validate (tx_Creditor c))
     @ nested ''CreditorAgent''
         (BranchAndFinancialInstitutionIdentification6_Validate (tx_CreditorAgent c))
     @ when_set (tx_PaymentTypeInfo c)
         (\<lambda>p. nested ''PaymentTypeInfo'' (PaymentTypeInfo28_Validate p))
     @ when_set (tx_DebtorAccount c) (\<lambda>a. nested ''DebtorAccount'' (CashAccount38_Validate a))
     @ when_set (tx_CreditorAccount c) (\<lambda>a. nested ''CreditorAccount'' (CashAccount38_Validate a))
     @ when_set (tx_UltimateDebtor c)
         (\<lambda>p. nested ''UltimateDebtor'' (PartyIdentification135_Validate p))
     @ when_set (tx_UltimateCreditor c)
         (\<lambda>p. nested ''UltimateCreditor'' (PartyIdentification135_Validate p)))"






subsection \<open>Documents\<close>













subsection \<open>The business application header\<close>












subsection \<open>The receiver of a \<open>Validate\<close> call\<close>



section \<open>Notions the properties are stated with\<close>

subsection \<open>Lengths of matches\<close>

primrec minlen :: "rx \<Rightarrow> nat" where
  "minlen Eps = 0"
| "minlen (Cls rs) = 1"
| "minlen (Seq a b) = minlen a + minlen b"
| "minlen (Alt a b) = min (minlen a) (minlen b)"

primrec maxlen :: "rx \<Rightarrow> nat" where
  "maxlen Eps = 0"
| "maxlen (Cls rs) = 1"
| "maxlen (Seq a b) = maxlen a + maxlen b"
| "maxlen (Alt a b) = max (maxlen a) (maxlen b)"

subsection \<open>The calendar, as the specification words it\<close>

text \<open>
  A date is on the calendar when its month is 1..12 and its day is 1 up to the length
  of that month in that year (Gregorian leap years). A time is on the clock when its
  hour is 0..23 and its minute and second are 0..59.
\<close>

definition days_in_month :: "int \<Rightarrow> int \<Rightarrow> int" where
  "days_in_month y m =
     (if m = 2 then (if y mod 4 = 0 \<and> (y mod 400 = 0 \<or> y mod 100 \<noteq> 0) then 29 else 28)
      else if m = 4 \<or> m = 6 \<or> m = 9 \<or> m = 11 then 30 else 31)"

definition calendar_date :: "int \<Rightarrow> int \<Rightarrow> int \<Rightarrow> bool" where
  "calendar_date y m d = (1 \<le> m \<and> m \<le> 12 \<and> 1 \<le> d \<and> d \<le> days_in_month y m)"

definition clock_time :: "int \<Rightarrow> int \<Rightarrow> int \<Rightarrow> bool" where
  "clock_time h m s = (0 \<le> h \<and> h \<le> 23 \<and> 0 \<le> m \<and> m \<le> 59 \<and> 0 \<le> s \<and> s \<le> 59)"

text \<open>The shape \<open>YYYY-MM-DD\<close> and the date such a string denotes.\<close>

definition date_shape :: "string \<Rightarrow> bool" where
  "date_shape s =
     (length s = 10 \<and> list_all is_digit (take 4 s) \<and> s ! 4 = CHR ''-'' \<and>
      list_all is_digit (take 2 (drop 5 s)) \<and> s ! 7 = CHR ''-'' \<and>
      list_all is_digit (take 2 (drop 8 s)))"

definition date_on_calendar :: "string \<Rightarrow> bool" where
  "date_on_calendar s =
     calendar_date (number (take 4 s)) (number (take 2 (drop 5 s))) (number (take 2 (drop 8 s)))"

text \<open>
  The shape \<open>YYYY-MM-DDTHH:MM:SS\<close>, the shape \<open>.mmm\<close>, and the strings the date-time
  constraint takes: the first, optionally followed by the second, optionally followed in
  turn by \<open>Z\<close>.
\<close>

definition seconds_shape :: "string \<Rightarrow> bool" where
  "seconds_shape t =
     (length t = 19 \<and> list_all is_digit (take 4 t) \<and> t ! 4 = CHR ''-'' \<and>
      list_all is_digit (take 2 (drop 5 t)) \<and> t ! 7 = CHR ''-'' \<and>
      list_all is_digit (take 2 (drop 8 t)) \<and> t ! 10 = CHR ''T'' \<and>
      list_all is_digit (take 2 (drop 11 t)) \<and> t ! 13 = CHR '':'' \<and>
      list_all is_digit (take 2 (drop 14 t)) \<and> t ! 16 = CHR '':'' \<and>
      list_all is_digit (take 2 (drop 17 t)))"

definition millis_shape :: "string \<Rightarrow> bool" where
  "millis_shape u = (length u = 4 \<and> u ! 0 = CHR ''.'' \<and> list_all is_digit (drop 1 u))"

definition datetime_shape :: "string \<Rightarrow> bool" where
  "datetime_shape s =
     (seconds_shape (take 19 s) \<and>
      (drop 19 s = [] \<or> millis_shape (drop 19 s) \<or>
       (millis_shape (take 4 (drop 19 s)) \<and> drop 23 s = ''Z'')))"

definition datetime_on_calendar :: "string \<Rightarrow> bool" where
  "datetime_on_calendar s =
     (calendar_date (number (take 4 s)) (number (take 2 (drop 5 s))) (number (take 2 (drop 8 s))) \<and>
      clock_time (number (take 2 (drop 11 s))) (number (take 2 (drop 14 s)))
        (number (take 2 (drop 17 s))))"

subsection \<open>Upper-case letters\<close>

definition is_upper :: "char \<Rightarrow> bool" where
  "is_upper c = ((of_char CHR ''A'' :: nat) \<le> of_char c \<and> (of_char c :: nat) \<le> of_char CHR ''Z'')"

subsection \<open>The zero settlement instruction\<close>

definition zero_SettlementInstruction7 :: SettlementInstruction7 where
  "zero_SettlementInstruction7 =
     \<lparr>si_SettlementMethod = [], si_SettlementAccount = RPtr None, si_ClearingSystem = RPtr None,
      si_InstructingReimbursementAgent = RPtr None,
      si_InstructingReimbursementAgentAccount = RPtr None,
      si_InstructedReimbursementAgent = RPtr None,
      si_InstructedReimbursementAgentAccount = RPtr None,
      si_ThirdReimbursementAgent = RPtr None, si_ThirdReimbursementAgentAccount = RPtr None\<rparr>"

subsection \<open>Choice groups and their violations\<close>



subsection \<open>Optional structures\<close>

text \<open>An optional structure is unset, or set and valid.\<close>

definition unset_or_valid :: "('a \<Rightarrow> ValidationErrors option) \<Rightarrow> 'a option \<Rightarrow> bool" where
  "unset_or_valid V p = (case p of None \<Rightarrow> True | Some x \<Rightarrow> V x = None)"

subsection \<open>Violations at a path\<close>



subsection \<open>Worked messages\<close>

text \<open>
  A valid agent, a party by its name, a transfer by its charge bearer and the names of
  its debtor and creditor, a valid group header, and a message of three transfers whose
  third has a debtor name of 141 bytes.
\<close>

definition institution :: FinancialInstitutionIdentification18 where
  "institution = \<lparr>fi_BankIdentifierCode = Some ''DEUTDEFF'', fi_ClearingSystemMemberID = RPtr None,
     fi_LegalEntityIdentifier = None, fi_Name = None, fi_PostalAddress = RPtr None,
     fi_Other = RPtr None\<rparr>"

definition agent :: BranchAndFinancialInstitutionIdentification6 where
  "agent = \<lparr>bfi_FinancialInstitutionID = institution, bfi_BranchID = None\<rparr>"

definition party :: "string \<Rightarrow> PartyIdentification135" where
  "party name = \<lparr>pty_Name = Some name, pty_PostalAddress = None, pty_ContactDetails = None\<rparr>"

definition long_name :: string where
  "long_name = replicate 141 CHR ''x''"

definition transfer :: "string \<Rightarrow> string \<Rightarrow> string \<Rightarrow> CreditTransferTransaction39" where
  "transfer chargeBearer debtor creditor =
     \<lparr>tx_PaymentID = \<lparr>pid_EndToEndID = ''E2E-1'', pid_TransactionID = None\<rparr>,
      tx_PaymentTypeInfo = None,
      tx_InterbankSettlementAmount = \<lparr>aca_Value = Fin 100, aca_Currency = ''USD''\<rparr>,
      tx_ChargeBearer = chargeBearer, tx_UltimateDebtor = None, tx_Debtor = party debtor,
      tx_DebtorAccount = None, tx_DebtorAgent = agent, tx_CreditorAgent = agent,
      tx_Creditor = party creditor, tx_CreditorAccount = None, tx_UltimateCreditor = None\<rparr>"




section \<open>Rendering of violation lists\<close>

lemma strings_Join_Cons:
  "strings_Join (a # rest) sep = a @ concat (map (\<lambda>s. sep @ s) rest)"
  by (induction rest arbitrary: a) simp_all

text \<open>
  C7. \<open>ValidationErrors.Error()\<close> renders the empty list as the empty string and a
  non-empty list as its elements in list order, each formatted by
  \<open>ValidationError.Error()\<close> as \<open>Field '<path>': <message>\<close>, with \<open>; \<close> between
  neighbours.
\<close>

theorem ValidationErrors_Error_join:
  "ValidationErrors_Error [] = []
   \<and> ValidationErrors_Error (e # es) =
       ValidationError_Error e @ concat (map (\<lambda>x. ''; '' @ ValidationError_Error x) es)
   \<and> ValidationError_Error e =
       ''Field '' @ [CHR 0x27] @ Field' e @ [CHR 0x27] @ '': '' @ Message e
   \<and> ValidationErrors_Error
       [\<lparr>Field' = ''Value'', Message = ''must be positive''\<rparr>,
        \<lparr>Field' = ''Ccy'', Message = ''is required''\<rparr>] =
       ''Field '' @ [CHR 0x27] @ ''Value'' @ [CHR 0x27] @ '': must be positive; Field ''
         @ [CHR 0x27] @ ''Ccy'' @ [CHR 0x27] @ '': is required''"
  by (simp add: ValidationErrors_Error_def strings_Join_Cons comp_def
      ValidationError_Error_def apostrophe_def)

section \<open>Dates and date-times\<close>

subsection \<open>What a pattern can match\<close>

lemma rmatch_length:
  "t \<in> set (rmatch r s) \<Longrightarrow> \<exists>u. s = u @ t \<and> minlen r \<le> length u \<and> length u \<le> maxlen r"
proof (induction r arbitrary: s t)
  case Eps
  then show ?case by simp
next
  case (Cls rs)
  then show ?case by (cases s) (auto split: if_splits)
next
  case (Seq a b)
  from Seq.prems obtain m where m: "m \<in> set (rmatch a s)" and t: "t \<in> set (rmatch b m)"
    by auto
  from Seq.IH(1)[OF m] obtain u where u: "s = u @ m" "minlen a \<le> length u" "length u \<le> maxlen a"
    by blast
  from Seq.IH(2)[OF t] obtain w where w: "m = w @ t" "minlen b \<le> length w" "length w \<le> maxlen b"
    by blast
  show ?case
    by (rule exI[of _ "u @ w"]) (use u w in simp)
next
  case (Alt a b)
  then show ?case by fastforce
qed

lemma minlen_times: "minlen (times n r) = n * minlen r"
  by (induction n) simp_all

lemma maxlen_times: "maxlen (times n r) = n * maxlen r"
  by (induction n) simp_all

lemma match_length:
  assumes "regexp_MatchString p s"
  shows "minlen (prog p) \<le> length s \<and> length s \<le> maxlen (prog p)"
  using rmatch_length[of "[]" "prog p" s] assms by (auto simp: regexp_MatchString_def)

lemma times_numeral: "times (numeral k) r = Seq r (times (pred_numeral k) r)"
  by (simp add: numeral_eq_Suc)

lemma in_class_digit: "in_class [(CHR ''0'', CHR ''9'')] c = is_digit c"
  by (simp add: in_class_def is_digit_def)

lemma in_class_lit: "in_class [(a, a)] c = (c = a)"
  by (auto simp: in_class_def)

lemma daysIn_eq:
  assumes "1 \<le> m" "m \<le> 12"
  shows "daysIn m y = days_in_month y m"
proof -
  from assms have "m = 1 \<or> m = 2 \<or> m = 3 \<or> m = 4 \<or> m = 5 \<or> m = 6 \<or> m = 7 \<or> m = 8
      \<or> m = 9 \<or> m = 10 \<or> m = 11 \<or> m = 12"
    by arith
  then show ?thesis
    by (elim disjE) (simp_all add: daysIn_def days_in_month_def isLeap_def, auto)
qed

subsection \<open>\<open>validateDate\<close>\<close>

lemma length10:
  "length s = 10 \<Longrightarrow> \<exists>a0 a1 a2 a3 a4 a5 a6 a7 a8 a9. s = [a0, a1, a2, a3, a4, a5, a6, a7, a8, a9]"
  by (auto simp: eval_nat_numeral length_Suc_conv)

lemma date_match_length: "regexp_MatchString pat_date s \<Longrightarrow> length s = 10"
  using match_length[of pat_date s]
  by (simp add: pat_date_def minlen_times maxlen_times digit_def lit_def)

lemma date_match_list:
  "regexp_MatchString pat_date [a0, a1, a2, a3, a4, a5, a6, a7, a8, a9] =
     (is_digit a0 \<and> is_digit a1 \<and> is_digit a2 \<and> is_digit a3 \<and> a4 = CHR ''-'' \<and>
      is_digit a5 \<and> is_digit a6 \<and> a7 = CHR ''-'' \<and> is_digit a8 \<and> is_digit a9)"
  by (auto simp: regexp_MatchString_def pat_date_def times_numeral digit_def lit_def
      in_class_digit in_class_lit)

lemma date_match_shape: "regexp_MatchString pat_date s = date_shape s"
proof (cases "length s = 10")
  case True
  then obtain a0 a1 a2 a3 a4 a5 a6 a7 a8 a9 where "s = [a0, a1, a2, a3, a4, a5, a6, a7, a8, a9]"
    using length10[OF True] by auto
  then show ?thesis
    by (auto simp: date_match_list date_shape_def)
next
  case False
  then show ?thesis
    using date_match_length[of s] by (auto simp: date_shape_def)
qed

lemma date_parse_list:
  assumes "is_digit a0" "is_digit a1" "is_digit a2" "is_digit a3"
    "is_digit a5" "is_digit a6" "is_digit a8" "is_digit a9"
  shows "(time_Parse layout_date [a0, a1, a2, a3, CHR ''-'', a5, a6, CHR ''-'', a8, a9] = None) =
     (\<not> calendar_date (number [a0, a1, a2, a3]) (number [a5, a6]) (number [a8, a9]))"
proof -
  have "1 \<le> number [a5, a6] \<Longrightarrow> number [a5, a6] \<le> 12 \<Longrightarrow>
      daysIn (number [a5, a6]) y = days_in_month y (number [a5, a6])" for y
    by (rule daysIn_eq)
  then show ?thesis using assms
    by (auto simp: time_Parse_def layout_date_def atoi_def getnum_def calendar_date_def
        number_def Let_def is_digit_def split: option.splits)
qed

lemma validateDate_iff:
  "(validateDate d f = None) = (date_shape d \<and> date_on_calendar d)"
proof (cases "date_shape d")
  case True
  then have len: "length d = 10" by (simp add: date_shape_def)
  obtain a0 a1 a2 a3 a4 a5 a6 a7 a8 a9 where d: "d = [a0, a1, a2, a3, a4, a5, a6, a7, a8, a9]"
    using length10[OF len] by auto
  from True have sh: "is_digit a0" "is_digit a1" "is_digit a2" "is_digit a3" "a4 = CHR ''-''"
      "is_digit a5" "is_digit a6" "a7 = CHR ''-''" "is_digit a8" "is_digit a9"
    by (simp_all add: d date_match_list flip: date_match_shape)
  from True have m: "regexp_MatchString pat_date d" by (simp add: date_match_shape)
  from date_parse_list[of a0 a1 a2 a3 a5 a6 a8 a9] sh m True show ?thesis
    by (simp add: d validateDate_def validatePattern_def date_on_calendar_def)
next
  case False
  then show ?thesis
    by (simp add: validateDate_def validatePattern_def date_match_shape)
qed

text \<open>
  C5. \<open>validateDate\<close> returns nil exactly for the strings that match the shape
  \<open>\d{4}-\d{2}-\d{2}\<close> and denote a date on the calendar. \<open>2023-12-25\<close> passes;
  \<open>25-12-2023\<close> (wrong shape), \<open>2023-13-45\<close> (which has the shape) and the empty string
  return a violation.
\<close>

theorem validateDate_shape_and_calendar:
  "(validateDate d f = None) = (date_shape d \<and> date_on_calendar d)
   \<and> regexp_MatchString pat_date d = date_shape d
   \<and> validateDate ''2023-12-25'' f = None
   \<and> validateDate ''25-12-2023'' f \<noteq> None
   \<and> date_shape ''2023-13-45'' \<and> validateDate ''2023-13-45'' f \<noteq> None
   \<and> validateDate [] f \<noteq> None"
proof -
  have a: "date_shape ''2023-12-25'' \<and> date_on_calendar ''2023-12-25''"
    by (simp add: date_shape_def date_on_calendar_def calendar_date_def days_in_month_def
        number_def is_digit_def digit_val_def)
  have b: "\<not> date_shape ''25-12-2023''"
    by (simp add: date_shape_def is_digit_def)
  have c: "date_shape ''2023-13-45'' \<and> \<not> date_on_calendar ''2023-13-45''"
    by (simp add: date_shape_def date_on_calendar_def calendar_date_def days_in_month_def
        number_def is_digit_def digit_val_def)
  have e: "\<not> date_shape []"
    by (simp add: date_shape_def)
  show ?thesis
    using a b c e by (simp add: validateDate_iff date_match_shape)
qed

subsection \<open>\<open>validateDateTime\<close>\<close>

lemma length19:
  "length s = 19 \<Longrightarrow> \<exists>a0 a1 a2 a3 a4 a5 a6 a7 a8 a9 b0 b1 b2 b3 b4 b5 b6 b7 b8.
     s = [a0, a1, a2, a3, a4, a5, a6, a7, a8, a9, b0, b1, b2, b3, b4, b5, b6, b7, b8]"
  by (auto simp: eval_nat_numeral length_Suc_conv)

lemma datetime_match_length:
  "regexp_MatchString pat_datetime s \<Longrightarrow> 19 \<le> length s \<and> length s \<le> 24"
  using match_length[of pat_datetime s]
  by (simp add: pat_datetime_def minlen_times maxlen_times digit_def lit_def Opt_def)

lemma split19: "19 \<le> length s \<Longrightarrow> \<exists>t u. s = t @ u \<and> length t = 19"
  by (rule exI[of _ "take 19 s"], rule exI[of _ "drop 19 s"]) simp

lemma datetime_match_list:
  "regexp_MatchString pat_datetime
     ([a0, a1, a2, a3, a4, a5, a6, a7, a8, a9, b0, b1, b2, b3, b4, b5, b6, b7, b8] @ u) =
     (is_digit a0 \<and> is_digit a1 \<and> is_digit a2 \<and> is_digit a3 \<and> a4 = CHR ''-'' \<and>
      is_digit a5 \<and> is_digit a6 \<and> a7 = CHR ''-'' \<and> is_digit a8 \<and> is_digit a9 \<and>
      b0 = CHR ''T'' \<and> is_digit b1 \<and> is_digit b2 \<and> b3 = CHR '':'' \<and> is_digit b4 \<and>
      is_digit b5 \<and> b6 = CHR '':'' \<and> is_digit b7 \<and> is_digit b8 \<and>
      [] \<in> set (rmatch (Opt (Seq (lit CHR ''.'') (Seq (times 3 digit) (Opt (lit CHR ''Z''))))) u))"
  by (auto simp: regexp_MatchString_def pat_datetime_def times_numeral digit_def lit_def
      in_class_digit in_class_lit)

lemma tail_match:
  "([] \<in> set (rmatch (Opt (Seq (lit CHR ''.'') (Seq (times 3 digit) (Opt (lit CHR ''Z''))))) u)) =
   (u = [] \<or> millis_shape u \<or> (millis_shape (take 4 u) \<and> drop 4 u = ''Z''))"
proof -
  consider "u = []" | c0 where "u = [c0]" | c0 c1 where "u = [c0, c1]"
    | c0 c1 c2 where "u = [c0, c1, c2]" | c0 c1 c2 c3 where "u = [c0, c1, c2, c3]"
    | c0 c1 c2 c3 c4 where "u = [c0, c1, c2, c3, c4]"
    | c0 c1 c2 c3 c4 c5 w where "u = c0 # c1 # c2 # c3 # c4 # c5 # w"
    by (metis list.exhaust)
  then show ?thesis
    by cases (auto simp: Opt_def times_numeral digit_def lit_def in_class_digit in_class_lit
        millis_shape_def split: list.splits)
qed

lemma datetime_match_shape: "regexp_MatchString pat_datetime s = datetime_shape s"
proof (cases "19 \<le> length s")
  case True
  then obtain t u where s: "s = t @ u" and t: "length t = 19"
    using split19 by blast
  obtain a0 a1 a2 a3 a4 a5 a6 a7 a8 a9 b0 b1 b2 b3 b4 b5 b6 b7 b8 where
    tl: "t = [a0, a1, a2, a3, a4, a5, a6, a7, a8, a9, b0, b1, b2, b3, b4, b5, b6, b7, b8]"
    using length19[OF t] by auto
  show ?thesis
    unfolding s tl datetime_match_list tail_match
    by (auto simp: datetime_shape_def seconds_shape_def)
next
  case False
  then have "\<not> regexp_MatchString pat_datetime s"
    using datetime_match_length[of s] by auto
  moreover from False have "\<not> datetime_shape s"
    by (auto simp: datetime_shape_def seconds_shape_def)
  ultimately show ?thesis by simp
qed

lemma digit_not_sign: "is_digit c \<Longrightarrow> c \<noteq> CHR ''-'' \<and> c \<noteq> CHR ''+''"
  by (auto simp: is_digit_def)

lemma digit_val_range: "is_digit c \<Longrightarrow> 0 \<le> digit_val c \<and> digit_val c \<le> 9"
  by (auto simp: is_digit_def digit_val_def)

lemma number_snoc: "number (t @ [c]) = number t * 10 + digit_val c"
  by (simp add: number_def)

lemma number_nonneg: "list_all is_digit t \<Longrightarrow> 0 \<le> number t"
proof (induction t rule: rev_induct)
  case Nil
  then show ?case by (simp add: number_def)
next
  case (snoc c t)
  then show ?case using digit_val_range[of c] by (simp add: number_snoc)
qed

lemma atoi_digits: "list_all is_digit t \<Longrightarrow> atoi t = Some (number t)"
  by (cases t) (auto simp: atoi_def dest: digit_not_sign)

lemma getnum_two:
  "is_digit c1 \<Longrightarrow> is_digit c2 \<Longrightarrow> getnum (c1 # c2 # r) fixed = Some (number [c1, c2], r)"
  by (simp add: getnum_def number_def)

lemma parseNanoseconds_millis:
  "is_digit c1 \<Longrightarrow> is_digit c2 \<Longrightarrow> is_digit c3 \<Longrightarrow>
     parseNanoseconds (CHR ''.'' # c1 # c2 # c3 # r) 4"
  using number_nonneg[of "[c1, c2, c3]"]
  by (simp add: parseNanoseconds_def commaOrPeriod_def atoi_digits)

text \<open>The common prefix of the three layouts on a well-shaped value.\<close>

lemma seconds_prefix:
  assumes "is_digit a0" "is_digit a1" "is_digit a2" "is_digit a3"
    "is_digit a5" "is_digit a6" "is_digit a8" "is_digit a9"
    "is_digit b1" "is_digit b2" "is_digit b4" "is_digit b5"
  shows "parse_chunks ([LongYear, Lit ''-'', ZeroMonth, Lit ''-'', ZeroDay, Lit ''T'',
                     Hour, Lit '':'', ZeroMinute, Lit '':''] @ cs)
           ([a0, a1, a2, a3, CHR ''-'', a5, a6, CHR ''-'', a8, a9, CHR ''T'',
            b1, b2, CHR '':'', b4, b5, CHR '':''] @ v) f =
     (if 1 \<le> number [a5, a6] \<and> number [a5, a6] \<le> 12 \<and> number [b1, b2] \<le> 23 \<and>
         number [b4, b5] \<le> 59
      then parse_chunks cs v (f\<lparr>year := number [a0, a1, a2, a3], month := number [a5, a6],
             day := number [a8, a9], hour := number [b1, b2], minute := number [b4, b5]\<rparr>)
      else None)"
  using assms number_nonneg[of "[b1, b2]"] number_nonneg[of "[b4, b5]"]
  by (auto simp: atoi_digits getnum_two)

lemma not_digit_Z: "\<not> is_digit CHR ''Z''"
  by (simp add: is_digit_def)

lemma number_two_upper: "is_digit c1 \<Longrightarrow> is_digit c2 \<Longrightarrow> number [c1, c2] \<le> 99"
  using digit_val_range[of c1] digit_val_range[of c2] by (simp add: number_def)

lemma day_check:
  "1 \<le> m \<Longrightarrow> m \<le> 12 \<Longrightarrow> (d < 1 \<or> d > daysIn m y) = (\<not> (1 \<le> d \<and> d \<le> days_in_month y m))"
  by (auto simp: daysIn_eq)

lemma seconds_parse_list:
  assumes "is_digit a0" "is_digit a1" "is_digit a2" "is_digit a3"
    "is_digit a5" "is_digit a6" "is_digit a8" "is_digit a9"
    "is_digit b1" "is_digit b2" "is_digit b4" "is_digit b5" "is_digit b7" "is_digit b8"
  shows "try_layouts layouts [a0, a1, a2, a3, CHR ''-'', a5, a6, CHR ''-'', a8, a9, CHR ''T'',
            b1, b2, CHR '':'', b4, b5, CHR '':'', b7, b8] True =
     (calendar_date (number [a0, a1, a2, a3]) (number [a5, a6]) (number [a8, a9]) \<and>
      clock_time (number [b1, b2]) (number [b4, b5]) (number [b7, b8]))"
proof -
  note p = seconds_prefix[OF assms(1-12), unfolded append_Cons append_Nil]
  show ?thesis
    using assms number_nonneg[of "[b1, b2]"] number_nonneg[of "[b4, b5]"]
      number_nonneg[of "[b7, b8]"]
    by (auto simp: time_Parse_def layouts_def layout_seconds_def p getnum_two
        calendar_date_def clock_time_def day_check simp del: parse_chunks.simps(3))
qed

lemma millis_parse_list:
  assumes "is_digit a0" "is_digit a1" "is_digit a2" "is_digit a3"
    "is_digit a5" "is_digit a6" "is_digit a8" "is_digit a9"
    "is_digit b1" "is_digit b2" "is_digit b4" "is_digit b5" "is_digit b7" "is_digit b8"
    "is_digit c1" "is_digit c2" "is_digit c3"
  shows "try_layouts layouts [a0, a1, a2, a3, CHR ''-'', a5, a6, CHR ''-'', a8, a9, CHR ''T'',
            b1, b2, CHR '':'', b4, b5, CHR '':'', b7, b8, CHR ''.'', c1, c2, c3] True =
     (calendar_date (number [a0, a1, a2, a3]) (number [a5, a6]) (number [a8, a9]) \<and>
      clock_time (number [b1, b2]) (number [b4, b5]) (number [b7, b8]))"
proof -
  note p = seconds_prefix[OF assms(1-12), unfolded append_Cons append_Nil]
  show ?thesis
    using assms number_nonneg[of "[b1, b2]"] number_nonneg[of "[b4, b5]"]
      number_nonneg[of "[b7, b8]"]
    by (auto simp: time_Parse_def layouts_def layout_seconds_def p getnum_two
        calendar_date_def clock_time_def day_check parseNanoseconds_millis commaOrPeriod_def
        simp del: parse_chunks.simps(3))
qed

lemma millis_Z_parse_list:
  assumes "is_digit a0" "is_digit a1" "is_digit a2" "is_digit a3"
    "is_digit a5" "is_digit a6" "is_digit a8" "is_digit a9"
    "is_digit b1" "is_digit b2" "is_digit b4" "is_digit b5" "is_digit b7" "is_digit b8"
    "is_digit c1" "is_digit c2" "is_digit c3"
  shows "try_layouts layouts [a0, a1, a2, a3, CHR ''-'', a5, a6, CHR ''-'', a8, a9, CHR ''T'',
            b1, b2, CHR '':'', b4, b5, CHR '':'', b7, b8, CHR ''.'', c1, c2, c3, CHR ''Z''] True =
     (calendar_date (number [a0, a1, a2, a3]) (number [a5, a6]) (number [a8, a9]) \<and>
      clock_time (number [b1, b2]) (number [b4, b5]) (number [b7, b8]))"
proof -
  note p = seconds_prefix[OF assms(1-12), unfolded append_Cons append_Nil]
  show ?thesis
    using assms number_nonneg[of "[b1, b2]"] number_nonneg[of "[b4, b5]"]
      number_nonneg[of "[b7, b8]"]
    by (auto simp: time_Parse_def layouts_def layout_seconds_def p getnum_two not_digit_Z
        calendar_date_def clock_time_def day_check parseNanoseconds_millis commaOrPeriod_def
        simp del: parse_chunks.simps(3))
qed

lemma length4: "length u = 4 \<Longrightarrow> \<exists>c0 c1 c2 c3. u = [c0, c1, c2, c3]"
  by (auto simp: eval_nat_numeral length_Suc_conv)

lemma millis_shape_list:
  "millis_shape u = (\<exists>c1 c2 c3. u = [CHR ''.'', c1, c2, c3] \<and> is_digit c1 \<and> is_digit c2 \<and> is_digit c3)"
proof
  assume m: "millis_shape u"
  then have "length u = 4" by (simp add: millis_shape_def)
  from length4[OF this] obtain c0 c1 c2 c3 where "u = [c0, c1, c2, c3]" by auto
  with m show "\<exists>c1 c2 c3. u = [CHR ''.'', c1, c2, c3] \<and> is_digit c1 \<and> is_digit c2 \<and> is_digit c3"
    by (simp add: millis_shape_def)
next
  assume "\<exists>c1 c2 c3. u = [CHR ''.'', c1, c2, c3] \<and> is_digit c1 \<and> is_digit c2 \<and> is_digit c3"
  then show "millis_shape u" by (auto simp: millis_shape_def)
qed

lemma validateDateTime_iff:
  "(validateDateTime s f = None) = (datetime_shape s \<and> datetime_on_calendar s)"
proof (cases "datetime_shape s")
  case False
  then show ?thesis
    by (simp add: validateDateTime_def validatePattern_def datetime_match_shape)
next
  case True
  then have m: "regexp_MatchString pat_datetime s" by (simp add: datetime_match_shape)
  from True have "length (take 19 s) = 19" by (simp add: datetime_shape_def seconds_shape_def)
  from length19[OF this] obtain a0 a1 a2 a3 a4 a5 a6 a7 a8 a9 b0 b1 b2 b3 b4 b5 b6 b7 b8 where
    t: "take 19 s = [a0, a1, a2, a3, a4, a5, a6, a7, a8, a9, b0, b1, b2, b3, b4, b5, b6, b7, b8]"
    by auto
  define u where "u = drop 19 s"
  have s: "s = [a0, a1, a2, a3, a4, a5, a6, a7, a8, a9, b0, b1, b2, b3, b4, b5, b6, b7, b8] @ u"
    unfolding u_def t[symmetric] by simp
  from m have sh: "is_digit a0" "is_digit a1" "is_digit a2" "is_digit a3" "a4 = CHR ''-''"
      "is_digit a5" "is_digit a6" "a7 = CHR ''-''" "is_digit a8" "is_digit a9"
      "b0 = CHR ''T''" "is_digit b1" "is_digit b2" "b3 = CHR '':''" "is_digit b4"
      "is_digit b5" "b6 = CHR '':''" "is_digit b7" "is_digit b8"
    and tail: "u = [] \<or> millis_shape u \<or> (millis_shape (take 4 u) \<and> drop 4 u = ''Z'')"
    unfolding s datetime_match_list tail_match by simp_all
  have ne: "s \<noteq> []" unfolding s by simp
  have v: "(validateDateTime s f = None) = try_layouts layouts s True"
    using m ne by (simp add: validateDateTime_def validatePattern_def)
  from tail have "u = []
      \<or> (\<exists>c1 c2 c3. u = [CHR ''.'', c1, c2, c3] \<and> is_digit c1 \<and> is_digit c2 \<and> is_digit c3)
      \<or> (\<exists>c1 c2 c3. u = [CHR ''.'', c1, c2, c3, CHR ''Z''] \<and> is_digit c1 \<and> is_digit c2 \<and> is_digit c3)"
  proof (elim disjE conjE)
    assume "u = []"
    then show ?thesis by simp
  next
    assume "millis_shape u"
    then show ?thesis by (simp add: millis_shape_list)
  next
    assume a: "millis_shape (take 4 u)" and b: "drop 4 u = ''Z''"
    from a obtain c1 c2 c3 where c: "take 4 u = [CHR ''.'', c1, c2, c3]"
      "is_digit c1" "is_digit c2" "is_digit c3"
      by (auto simp: millis_shape_list)
    have "u = take 4 u @ drop 4 u" by simp
    then have "u = [CHR ''.'', c1, c2, c3, CHR ''Z'']" unfolding c b by simp
    with c show ?thesis by blast
  qed
  then show ?thesis
  proof (elim disjE exE conjE)
    assume "u = []"
    then have s': "s = [a0, a1, a2, a3, CHR ''-'', a5, a6, CHR ''-'', a8, a9, CHR ''T'',
            b1, b2, CHR '':'', b4, b5, CHR '':'', b7, b8]"
      using s sh by simp
    show ?thesis
      using True unfolding v
      unfolding s' seconds_parse_list[OF sh(1-4) sh(6,7) sh(9,10) sh(12,13) sh(15,16) sh(18,19)]
      by (simp add: datetime_on_calendar_def)
  next
    fix c1 c2 c3
    assume "u = [CHR ''.'', c1, c2, c3]" and c: "is_digit c1" "is_digit c2" "is_digit c3"
    then have s': "s = [a0, a1, a2, a3, CHR ''-'', a5, a6, CHR ''-'', a8, a9, CHR ''T'',
            b1, b2, CHR '':'', b4, b5, CHR '':'', b7, b8, CHR ''.'', c1, c2, c3]"
      using s sh by simp
    show ?thesis
      using True unfolding v
      unfolding s' millis_parse_list[OF sh(1-4) sh(6,7) sh(9,10) sh(12,13) sh(15,16) sh(18,19) c]
      by (simp add: datetime_on_calendar_def)
  next
    fix c1 c2 c3
    assume "u = [CHR ''.'', c1, c2, c3, CHR ''Z'']" and c: "is_digit c1" "is_digit c2" "is_digit c3"
    then have s': "s = [a0, a1, a2, a3, CHR ''-'', a5, a6, CHR ''-'', a8, a9, CHR ''T'',
            b1, b2, CHR '':'', b4, b5, CHR '':'', b7, b8, CHR ''.'', c1, c2, c3, CHR ''Z'']"
      using s sh by simp
    show ?thesis
      using True unfolding v
      unfolding s' millis_Z_parse_list[OF sh(1-4) sh(6,7) sh(9,10) sh(12,13) sh(15,16) sh(18,19) c]
      by (simp add: datetime_on_calendar_def)
  qed
qed

text \<open>
  C4, as amended. \<open>validateDateTime\<close> returns nil exactly for the strings of the form
  \<open>YYYY-MM-DDTHH:MM:SS\<close>, optionally followed by \<open>.mmm\<close>, itself optionally followed by
  \<open>Z\<close>, that denote a date on the calendar and a time on the clock. The three forms of
  the tests pass.
\<close>

theorem validateDateTime_accepted_set:
  "(validateDateTime s f = None) = (datetime_shape s \<and> datetime_on_calendar s)
   \<and> validateDateTime ''2023-12-25T14:30:00'' f = None
   \<and> validateDateTime ''2023-12-25T14:30:00.123'' f = None
   \<and> validateDateTime ''2023-12-25T14:30:00.123Z'' f = None"
proof -
  have a: "datetime_shape ''2023-12-25T14:30:00'' \<and> datetime_on_calendar ''2023-12-25T14:30:00''"
    by (simp add: datetime_shape_def seconds_shape_def datetime_on_calendar_def calendar_date_def
        clock_time_def days_in_month_def number_def is_digit_def digit_val_def)
  have b: "datetime_shape ''2023-12-25T14:30:00.123'' \<and>
      datetime_on_calendar ''2023-12-25T14:30:00.123''"
    by (simp add: datetime_shape_def seconds_shape_def millis_shape_def datetime_on_calendar_def
        calendar_date_def clock_time_def days_in_month_def number_def is_digit_def digit_val_def)
  have c: "datetime_shape ''2023-12-25T14:30:00.123Z'' \<and>
      datetime_on_calendar ''2023-12-25T14:30:00.123Z''"
    by (simp add: datetime_shape_def seconds_shape_def millis_shape_def datetime_on_calendar_def
        calendar_date_def clock_time_def days_in_month_def number_def is_digit_def digit_val_def)
  show ?thesis
    using a b c by (simp add: validateDateTime_iff)
qed

text \<open>
  C4, as claimed, fails: \<open>2023-12-25T14:30:00Z\<close> is a date on the calendar and a time on
  the clock with a trailing \<open>Z\<close> and no fractional second, and \<open>validateDateTime\<close>
  returns the format violation for it.
\<close>

theorem validateDateTime_Z_without_millis_rejected:
  "datetime_on_calendar ''2023-12-25T14:30:00Z''
   \<and> validateDateTime ''2023-12-25T14:30:00Z'' ''TestDateTime'' =
       Some \<lparr>Field' = ''TestDateTime'',
             Message = ''datetime must be in YYYY-MM-DDTHH:MM:SS format''\<rparr>"
proof -
  have "\<not> datetime_shape ''2023-12-25T14:30:00Z''"
    by (simp add: datetime_shape_def millis_shape_def)
  then have "\<not> regexp_MatchString pat_datetime ''2023-12-25T14:30:00Z''"
    by (simp add: datetime_match_shape)
  moreover have "datetime_on_calendar ''2023-12-25T14:30:00Z''"
    by (simp add: datetime_on_calendar_def calendar_date_def clock_time_def days_in_month_def
        number_def digit_val_def)
  ultimately show ?thesis
    by (simp add: validateDateTime_def validatePattern_def)
qed

section \<open>Amounts and accounts\<close>

lemma in_class_upper: "in_class [(CHR ''A'', CHR ''Z'')] c = is_upper c"
  by (simp add: in_class_def is_upper_def)

lemma length3: "length s = 3 \<Longrightarrow> \<exists>a b c. s = [a, b, c]"
  by (auto simp: eval_nat_numeral length_Suc_conv)

lemma currency_match: "regexp_MatchString pat_currency s = (length s = 3 \<and> list_all is_upper s)"
proof (cases "length s = 3")
  case True
  from length3[OF this] obtain a b c where "s = [a, b, c]" by auto
  then show ?thesis
    by (auto simp: regexp_MatchString_def pat_currency_def times_numeral upper_def in_class_upper)
next
  case False
  then show ?thesis
    using match_length[of pat_currency s]
    by (auto simp: pat_currency_def minlen_times maxlen_times upper_def)
qed

lemma result_of_None: "(result_of errs = None) = (errs = [])"
  by (simp add: result_of_def HasErrors_def)

lemma single_Nil: "(single r = []) = (r = None)"
  by (cases r) (simp_all add: single_def)

lemma validateCurrency_None:
  "(validateCurrency code f = None) = (length code = 3 \<and> list_all is_upper code)"
  by (auto simp: validateCurrency_def validateStringLength_def validatePattern_def currency_match
      Let_def split: option.splits if_splits)

lemma ActiveCurrencyAndAmount_Validate_nil_iff:
  "(ActiveCurrencyAndAmount_Validate a = None) =
     (\<not> f64_le_zero (aca_Value a) \<and> length (aca_Currency a) = 3 \<and> list_all is_upper (aca_Currency a))"
  by (auto simp: ActiveCurrencyAndAmount_Validate_def result_of_None single_Nil validateCurrency_None)

lemma f64_positive: "v \<noteq> NaN \<Longrightarrow> (\<not> f64_le_zero v) = f64_gt_zero v"
  by (cases v) auto

text \<open>
  C10. The claim is that \<open>Validate\<close> returns nil exactly when \<open>Value > 0\<close> and the
  currency is three upper-case letters. The guard of the source is \<open>Value <= 0\<close>, which
  is false for NaN as \<open>Value > 0\<close> is: an amount whose value is NaN and whose currency is
  \<open>USD\<close> is not positive and yet validates. (For every other value the claim holds:
  \<open>ActiveCurrencyAndAmount_Validate_nil_iff\<close> with \<open>f64_positive\<close>.)
\<close>

theorem ActiveCurrencyAndAmount_Validate_NaN:
  "\<not> f64_gt_zero NaN
   \<and> ActiveCurrencyAndAmount_Validate \<lparr>aca_Value = NaN, aca_Currency = ''USD''\<rparr> = None"
  by (simp add: ActiveCurrencyAndAmount_Validate_nil_iff is_upper_def)

lemma validateStringLength_None:
  "(validateStringLength v lo hi f = None) = (lo \<le> int (length v) \<and> int (length v) \<le> hi)"
  by (auto simp: validateStringLength_def Let_def)

text \<open>
  C8. An account identification with only the IBAN set validates exactly when the IBAN
  is 15 to 34 bytes long, whatever its shape: a lower-case string and a string of digits
  only, both refused by \<open>validateIBAN\<close>, validate.
\<close>

theorem AccountIdentification4_IBAN_length_only:
  "(AccountIdentification4_Validate \<lparr>ai_IBAN = Some s, ai_Other = None\<rparr> = None)
     = (15 \<le> length s \<and> length s \<le> 34)
   \<and> validateIBAN ''de89370400440532013000'' ''IBAN'' \<noteq> None
   \<and> AccountIdentification4_Validate \<lparr>ai_IBAN = Some ''de89370400440532013000'', ai_Other = None\<rparr> = None
   \<and> validateIBAN ''123456789012345'' ''IBAN'' \<noteq> None
   \<and> AccountIdentification4_Validate \<lparr>ai_IBAN = Some ''123456789012345'', ai_Other = None\<rparr> = None"
proof -
  have a: "(AccountIdentification4_Validate \<lparr>ai_IBAN = Some s, ai_Other = None\<rparr> = None)
     = (15 \<le> length s \<and> length s \<le> 34)" for s
    by (auto simp: AccountIdentification4_Validate_def result_of_None when_set_def single_Nil
        validateStringLength_None)
  have b: "\<not> regexp_MatchString pat_iban ''de89370400440532013000''"
    by (simp add: regexp_MatchString_def pat_iban_def times_numeral upper_def in_class_def)
  have c: "\<not> regexp_MatchString pat_iban ''123456789012345''"
    by (simp add: regexp_MatchString_def pat_iban_def times_numeral upper_def in_class_def)
  show ?thesis
    using b c by (simp add: a validateIBAN_def validatePattern_def validateStringLength_def)
qed

section \<open>Presence\<close>

lemma validateRequired_violation_iff:
  "(validateRequired v f \<noteq> None) = (IsZero v \<or> (\<exists>w. v = RPtr (Some w) \<and> IsZero w))"
  by (cases v) (auto simp: validateRequired_def split: option.splits)

lemma violations_result_of: "violations (result_of errs) = errs"
  by (cases errs) (simp_all add: violations_def result_of_def HasErrors_def)

lemma validateRequired_Field: "validateRequired v f = Some e \<Longrightarrow> Field' e = f"
  by (auto simp: validateRequired_def split: rvalue.splits option.splits if_splits)

lemma validateStringLength_Field: "validateStringLength v lo hi f = Some e \<Longrightarrow> Field' e = f"
  by (auto simp: validateStringLength_def Let_def split: if_splits)

lemma validatePattern_Field: "validatePattern v p f = Some e \<Longrightarrow> Field' e = f"
  by (auto simp: validatePattern_def split: if_splits)

lemma required_else_Field:
  "e \<in> set (required_else v n rest) \<Longrightarrow> Field' e = n \<or> e \<in> set rest"
  by (auto simp: required_else_def split: option.splits dest: validateRequired_Field)

lemma single_Field:
  "e \<in> set (single (validateStringLength v lo hi f)) \<Longrightarrow> Field' e = f"
  "e \<in> set (single (validatePattern v p f)) \<Longrightarrow> Field' e = f"
  "e \<in> set (single (validateRequired w f)) \<Longrightarrow> Field' e = f"
  by (auto simp: single_def split: option.splits
      dest: validateStringLength_Field[OF sym] validatePattern_Field[OF sym]
        validateRequired_Field[OF sym])

lemma validateRequired_RStruct:
  "validateRequired (RStruct fs) f =
     (if IsZero (RStruct fs) then Some \<lparr>Field' = f, Message = ''is required but is empty''\<rparr> else None)"
  by (simp add: validateRequired_def)

lemma GroupHeader93_SttlmInf:
  "(\<lparr>Field' = ''SttlmInf'', Message = ''is required but is empty''\<rparr>
      \<in> set (violations (GroupHeader93_Validate g)))
   = IsZero (reflect_SettlementInstruction7 (gh_SettlementInfo g))"
proof -
  let ?e = "\<lparr>Field' = ''SttlmInf'', Message = ''is required but is empty''\<rparr>"
  have a: "?e \<notin> set (required_else (RString (gh_MessageID g)) ''MsgId''
         (single (validateStringLength (gh_MessageID g) 1 35 ''MsgId'')))"
    by (auto dest!: required_else_Field single_Field)
  have b: "?e \<notin> set (required_else (RString (gh_NumberOfTransactions g)) ''NbOfTxs''
         (single (validatePattern (gh_NumberOfTransactions g) pat_number_of_transactions ''NbOfTxs'')))"
    by (auto dest!: required_else_Field single_Field)
  have d: "(?e \<in> set (required_else (reflect_SettlementInstruction7 (gh_SettlementInfo g)) ''SttlmInf''
         (single (validateRequired (RString (si_SettlementMethod (gh_SettlementInfo g))) ''SttlmMtd''))))
       = IsZero (reflect_SettlementInstruction7 (gh_SettlementInfo g))"
    unfolding reflect_SettlementInstruction7_def required_else_def validateRequired_RStruct
    by (auto dest: single_Field)
  show ?thesis
    unfolding GroupHeader93_Validate_def violations_result_of
    using a b d by auto
qed

text \<open>
  C9. \<open>validateRequired\<close> reports a violation exactly when its argument is its zero
  value (a nil pointer is the zero value of its type) or points to a zero value: the
  empty string, the number zero and the zero struct are reported like an absent field.
  A \<open>GroupHeader93\<close> carries the presence violation for \<open>SttlmInf\<close> exactly when its
  \<open>SettlementInfo\<close> is the zero value, although the field is there.
\<close>

theorem validateRequired_zero_is_absent:
  "validateRequired (RPtr None) f = Some \<lparr>Field' = f, Message = ''is required but is nil''\<rparr>
   \<and> (validateRequired v f \<noteq> None) = (IsZero v \<or> (\<exists>w. v = RPtr (Some w) \<and> IsZero w))
   \<and> validateRequired (RString []) f = Some \<lparr>Field' = f, Message = ''is required but is empty''\<rparr>
   \<and> validateRequired (RInt 0) f = Some \<lparr>Field' = f, Message = ''is required but is empty''\<rparr>
   \<and> validateRequired (RFloat (Fin 0)) f = Some \<lparr>Field' = f, Message = ''is required but is empty''\<rparr>
   \<and> validateRequired (reflect_SettlementInstruction7 zero_SettlementInstruction7) f
       = Some \<lparr>Field' = f, Message = ''is required but is empty''\<rparr>
   \<and> (\<lparr>Field' = ''SttlmInf'', Message = ''is required but is empty''\<rparr>
        \<in> set (violations (GroupHeader93_Validate g)))
       = IsZero (reflect_SettlementInstruction7 (gh_SettlementInfo g))
   \<and> \<lparr>Field' = ''SttlmInf'', Message = ''is required but is empty''\<rparr>
        \<in> set (violations (GroupHeader93_Validate (g\<lparr>gh_SettlementInfo := zero_SettlementInstruction7\<rparr>)))"
proof -
  have z: "IsZero (reflect_SettlementInstruction7 zero_SettlementInstruction7)"
    by (simp add: reflect_SettlementInstruction7_def zero_SettlementInstruction7_def)
  show ?thesis
    using z validateRequired_violation_iff[of v f]
    by (simp add: GroupHeader93_SttlmInf) (simp add: validateRequired_def reflect_SettlementInstruction7_def)
qed

section \<open>Results of the \<open>Validate\<close> methods\<close>








subsection \<open>Choice groups\<close>
























section \<open>Nested structures\<close>

subsection \<open>A transfer with two violations\<close>

lemma nested_simps:
  "nested n None = []"
  "nested n (Some es) = [\<lparr>Field' = n, Message = ValidationErrors_Error es\<rparr>]"
  by (simp_all add: nested_def)

lemma when_set_unset_or_valid:
  "unset_or_valid V p \<Longrightarrow> when_set p (\<lambda>x. nested n (V x)) = []"
  by (cases p) (simp_all add: unset_or_valid_def when_set_def nested_def)

lemma result_of_Cons: "result_of (e # es) = Some (e # es)"
  by (simp add: result_of_def HasErrors_def)

lemma ValidationErrors_Error_Cons:
  "ValidationErrors_Error (e # es) =
     ValidationError_Error e @ concat (map (\<lambda>x. ''; '' @ ValidationError_Error x) es)"
  by (simp add: ValidationErrors_Error_def strings_Join_Cons comp_def)

lemma PartyIdentification135_long_name:
  assumes "pty_Name p = Some name" "length name > 140"
  shows "\<exists>more. PartyIdentification135_Validate p =
      Some (\<lparr>Field' = ''Name'', Message = ''length '' @ fmt_d (int (length name))
                @ '' exceeds maximum 140''\<rparr> # more)"
proof -
  have "validateStringLength name 1 140 ''Name'' =
      Some \<lparr>Field' = ''Name'', Message = ''length '' @ fmt_d (int (length name))
                @ '' exceeds maximum '' @ fmt_d 140\<rparr>"
    using assms(2) by (auto simp: validateStringLength_def Let_def)
  moreover have "fmt_d 140 = ''140''" by code_simp
  ultimately show ?thesis
    using assms(1)
    by (simp add: PartyIdentification135_Validate_def when_set_def single_def result_of_Cons)
qed

text \<open>
  C1, as amended. A transfer whose \<open>ChargeBearer\<close> is empty, whose \<open>PaymentID\<close>,
  \<open>InterbankSettlementAmount\<close>, \<open>Debtor\<close>, \<open>DebtorAgent\<close> and \<open>CreditorAgent\<close> are
  valid, whose optional structures are unset or valid, and whose \<open>Creditor.Name\<close> is
  longer than 140 bytes has exactly two violations, in this order: the presence violation
  at \<open>ChargeBearer\<close>, and one violation at \<open>Creditor\<close> whose message is the rendering
  of the creditor's own violations and so starts with
  \<open>Field 'Name': length N exceeds maximum 140\<close>.
\<close>

theorem transfer_two_violations:
  assumes "tx_ChargeBearer c = []"
    and "PaymentIdentification7_Validate (tx_PaymentID c) = None"
    and "ActiveCurrencyAndAmount_Validate (tx_InterbankSettlementAmount c) = None"
    and "PartyIdentification135_Validate (tx_Debtor c) = None"
    and "BranchAndFinancialInstitutionIdentification6_Validate (tx_DebtorAgent c) = None"
    and "BranchAndFinancialInstitutionIdentification6_Validate (tx_CreditorAgent c) = None"
    and "unset_or_valid PaymentTypeInfo28_Validate (tx_PaymentTypeInfo c)"
    and "unset_or_valid CashAccount38_Validate (tx_DebtorAccount c)"
    and "unset_or_valid CashAccount38_Validate (tx_CreditorAccount c)"
    and "unset_or_valid PartyIdentification135_Validate (tx_UltimateDebtor c)"
    and "unset_or_valid PartyIdentification135_Validate (tx_UltimateCreditor c)"
    and "pty_Name (tx_Creditor c) = Some name" and "length name > 140"
  shows "\<exists>rest. CreditTransferTransaction39_Validate c =
      Some [\<lparr>Field' = ''ChargeBearer'', Message = ''is required but is empty''\<rparr>,
            \<lparr>Field' = ''Creditor'',
              Message = ''Field '' @ [CHR 0x27] @ ''Name'' @ [CHR 0x27] @ '': length ''
                @ fmt_d (int (length name)) @ '' exceeds maximum 140'' @ rest\<rparr>]"
proof -
  from PartyIdentification135_long_name[OF assms(12,13)] obtain more where
    cr: "PartyIdentification135_Validate (tx_Creditor c) =
      Some (\<lparr>Field' = ''Name'', Message = ''length '' @ fmt_d (int (length name))
                @ '' exceeds maximum 140''\<rparr> # more)"
    by blast
  have cb: "required_else (RString (tx_ChargeBearer c)) ''ChargeBearer'' r =
      [\<lparr>Field' = ''ChargeBearer'', Message = ''is required but is empty''\<rparr>]" for r
    using assms(1) by (simp add: required_else_def validateRequired_def)
  show ?thesis
    unfolding CreditTransferTransaction39_Validate_def
    by (simp add: assms(2-6) cr cb nested_simps when_set_unset_or_valid[OF assms(7)]
        when_set_unset_or_valid[OF assms(8)] when_set_unset_or_valid[OF assms(9)]
        when_set_unset_or_valid[OF assms(10)] when_set_unset_or_valid[OF assms(11)]
        result_of_Cons ValidationErrors_Error_Cons ValidationError_Error_def apostrophe_def)
qed

subsection \<open>Paths of nested violations\<close>













































section \<open>The worked messages, validated\<close>

text \<open>
  C1, as claimed, fails. For the transfer with no charge bearer and a creditor name of
  141 bytes the second violation is at \<open>Creditor\<close>, and no violation is at
  \<open>Creditor.Name\<close>. And when the same transfer carries an ultimate debtor with an empty
  name, an optional structure of which the claim says nothing, there are three
  violations.
\<close>

theorem transfer_violation_at_Creditor:
  "CreditTransferTransaction39_Validate (transfer [] ''Alice'' long_name) =
     Some [\<lparr>Field' = ''ChargeBearer'', Message = ''is required but is empty''\<rparr>,
           \<lparr>Field' = ''Creditor'',
             Message = ''Field '' @ [CHR 0x27] @ ''Name'' @ [CHR 0x27]
               @ '': length 141 exceeds maximum 140''\<rparr>]
   \<and> ''Creditor.Name'' \<notin>
       Field' ` set (violations (CreditTransferTransaction39_Validate (transfer [] ''Alice'' long_name)))
   \<and> map Field' (violations (CreditTransferTransaction39_Validate
         ((transfer [] ''Alice'' long_name)\<lparr>tx_UltimateDebtor := Some (party [])\<rparr>)))
       = [''ChargeBearer'', ''Creditor'', ''UltimateDebtor'']"
proof -
  have three: "map Field' (violations (CreditTransferTransaction39_Validate
         ((transfer [] ''Alice'' long_name)\<lparr>tx_UltimateDebtor := Some (party [])\<rparr>)))
       = [''ChargeBearer'', ''Creditor'', ''UltimateDebtor'']"
    by code_simp
  have "CreditTransferTransaction39_Validate (transfer [] ''Alice'' long_name) =
     Some [\<lparr>Field' = ''ChargeBearer'', Message = ''is required but is empty''\<rparr>,
           \<lparr>Field' = ''Creditor'',
             Message = ''Field '' @ [CHR 0x27] @ ''Name'' @ [CHR 0x27]
               @ '': length 141 exceeds maximum 140''\<rparr>]"
    by code_simp
  then show ?thesis using three by (simp add: violations_def)
qed

theorem transfer_two_violations_witness:
  "tx_ChargeBearer (transfer [] ''Alice'' long_name) = []
   \<and> PaymentIdentification7_Validate (tx_PaymentID (transfer [] ''Alice'' long_name)) = None
   \<and> ActiveCurrencyAndAmount_Validate
       (tx_InterbankSettlementAmount (transfer [] ''Alice'' long_name)) = None
   \<and> PartyIdentification135_Validate (tx_Debtor (transfer [] ''Alice'' long_name)) = None
   \<and> BranchAndFinancialInstitutionIdentification6_Validate
       (tx_DebtorAgent (transfer [] ''Alice'' long_name)) = None
   \<and> BranchAndFinancialInstitutionIdentification6_Validate
       (tx_CreditorAgent (transfer [] ''Alice'' long_name)) = None
   \<and> unset_or_valid PaymentTypeInfo28_Validate (tx_PaymentTypeInfo (transfer [] ''Alice'' long_name))
   \<and> unset_or_valid CashAccount38_Validate (tx_DebtorAccount (transfer [] ''Alice'' long_name))
   \<and> unset_or_valid CashAccount38_Validate (tx_CreditorAccount (transfer [] ''Alice'' long_name))
   \<and> unset_or_valid PartyIdentification135_Validate
       (tx_UltimateDebtor (transfer [] ''Alice'' long_name))
   \<and> unset_or_valid PartyIdentification135_Validate
       (tx_UltimateCreditor (transfer [] ''Alice'' long_name))
   \<and> pty_Name (tx_Creditor (transfer [] ''Alice'' long_name)) = Some long_name
   \<and> length long_name > 140
   \<and> (\<exists>rest. CreditTransferTransaction39_Validate (transfer [] ''Alice'' long_name) =
      Some [\<lparr>Field' = ''ChargeBearer'', Message = ''is required but is empty''\<rparr>,
            \<lparr>Field' = ''Creditor'',
              Message = ''Field '' @ [CHR 0x27] @ ''Name'' @ [CHR 0x27] @ '': length ''
                @ fmt_d (int (length long_name)) @ '' exceeds maximum 140'' @ rest\<rparr>])"
proof -
  let ?t = "transfer [] ''Alice'' long_name"
  have h1: "tx_ChargeBearer ?t = []" by (simp add: transfer_def)
  have h2: "PaymentIdentification7_Validate (tx_PaymentID ?t) = None" by code_simp
  have h3: "ActiveCurrencyAndAmount_Validate (tx_InterbankSettlementAmount ?t) = None"
    by (simp add: transfer_def ActiveCurrencyAndAmount_Validate_nil_iff is_upper_def)
  have h4: "PartyIdentification135_Validate (tx_Debtor ?t) = None" by code_simp
  have h5: "BranchAndFinancialInstitutionIdentification6_Validate (tx_DebtorAgent ?t) = None"
    by code_simp
  have h6: "BranchAndFinancialInstitutionIdentification6_Validate (tx_CreditorAgent ?t) = None"
    by code_simp
  have h7: "unset_or_valid PaymentTypeInfo28_Validate (tx_PaymentTypeInfo ?t)"
    by (simp add: transfer_def unset_or_valid_def)
  have h8: "unset_or_valid CashAccount38_Validate (tx_DebtorAccount ?t)"
    by (simp add: transfer_def unset_or_valid_def)
  have h9: "unset_or_valid CashAccount38_Validate (tx_CreditorAccount ?t)"
    by (simp add: transfer_def unset_or_valid_def)
  have h10: "unset_or_valid PartyIdentification135_Validate (tx_UltimateDebtor ?t)"
    by (simp add: transfer_def unset_or_valid_def)
  have h11: "unset_or_valid PartyIdentification135_Validate (tx_UltimateCreditor ?t)"
    by (simp add: transfer_def unset_or_valid_def)
  have h12: "pty_Name (tx_Creditor ?t) = Some long_name" by (simp add: transfer_def party_def)
  have h13: "length long_name > 140" by (simp add: long_name_def)
  from transfer_two_violations[OF h1 h2 h3 h4 h5 h6 h7 h8 h9 h10 h11 h12 h13]
  show ?thesis
    using h1 h2 h3 h4 h5 h6 h7 h8 h9 h10 h11 h12 h13 by blast
qed



end
